theory Spec2Isabelle
  imports Main "HOL-Library.Word"
begin

section \<open>Go values\<close>

text \<open>
  Go's \<open>int\<close> is 64 bits wide on the server's platform and wraps around; it is a
  \<open>64 word\<close>, read as two's complement by \<open>sint\<close> and compared with the signed
  orders \<open>\<le>s\<close> and \<open><s\<close>. A \<open>time.Duration\<close> is an \<open>int64\<close>. A \<open>time.Time\<close> is an
  instant, carried as an integer. A \<open>float64\<close> is carried as its 64 bit pattern: the
  only operation on it here is the conversion \<open>int(...)\<close>, which the environment supplies.
  Pointers to players, sessions and games are references (addresses); a Go pointer to a
  live object never dangles, so the player store is a total function.
\<close>

type_synonym go_int = "64 word"
type_synonym Duration = "64 word"
type_synonym GoTime = int
type_synonym float64 = "64 word"
type_synonym pref = nat
type_synonym sref = nat
type_synonym gref = nat

text \<open>\<open>strconv.Itoa\<close>: the decimal digits, most significant first, with a minus sign.\<close>

function digits10 :: "nat \<Rightarrow> string" where
  "digits10 n =
     (if n < 10 then [''0123456789'' ! n]
      else digits10 (n div 10) @ [''0123456789'' ! (n mod 10)])"
  by pat_completeness auto
termination
  by (relation "measure (\<lambda>n. n)") auto

declare digits10.simps [simp del]

definition Itoa :: "go_int \<Rightarrow> string" where
  "Itoa i = (if sint i < 0 then CHR ''-'' # digits10 (nat (- sint i)) else digits10 (nat (sint i)))"

text \<open>\<open>strings.Join\<close> and \<open>strings.TrimSuffix\<close>.\<close>

fun Join :: "string list \<Rightarrow> string \<Rightarrow> string" where
  "Join [] sep = []"
| "Join [x] sep = x"
| "Join (x # y # ys) sep = x @ sep @ Join (y # ys) sep"

definition TrimSuffix :: "string \<Rightarrow> string \<Rightarrow> string" where
  "TrimSuffix s suffix =
     (if length suffix \<le> length s \<and> drop (length s - length suffix) s = suffix
      then take (length s - length suffix) s else s)"

section \<open>The data model\<close>

record Card =
  Suit :: go_int
  Rank :: go_int
  Order :: go_int
  Discarded :: bool

record Options =
  Variant :: go_int
  Timed :: bool
  TimeBase :: float64
  TimePerTurn :: go_int
  ReorderCards :: bool

record DiscardSignal =
  Outstanding :: bool
  TurnExpiration :: go_int

text \<open>
  \<open>Action\<close>, \<open>Player\<close>, \<open>CommandData\<close>, \<open>Which\<close> and the \<open>models\<close> rows are declared
  outside \<open>game.go\<close> and \<open>gameEnd.go\<close>; they are given the fields these two files read
  and write. A field whose name another record already uses carries a suffix.
\<close>

record Action =
  Type_a :: string
  Num_a :: go_int
  Who_a :: go_int
  Text_a :: string
  Score_a :: go_int
  Loss_a :: bool

definition Action0 :: Action where
  "Action0 = \<lparr>Type_a = [], Num_a = 0, Who_a = 0, Text_a = [], Score_a = 0, Loss_a = False\<rparr>"

record Player =
  ID_p :: go_int
  Name_p :: string
  Hand :: "Card list"
  Time :: Duration
  Notes :: "string list"
  Present :: bool
  Session :: sref
  Stats :: nat

record CommandData =
  Type_d :: go_int
  Server_d :: bool
  Msg_d :: string
  Room_d :: string

definition CommandData0 :: CommandData where
  "CommandData0 = \<lparr>Type_d = 0, Server_d = False, Msg_d = [], Room_d = []\<rparr>"

record Which =
  Rank_w :: go_int
  Suit_w :: go_int
  Order_w :: go_int

record GameRow =
  Name_r :: string
  Owner_r :: go_int
  Variant_r :: go_int
  TimeBase_r :: go_int
  TimePerTurn_r :: go_int
  Seed_r :: string
  Score_r :: go_int
  EndCondition_r :: go_int
  DatetimeCreated_r :: GoTime
  DatetimeStarted_r :: GoTime

record GameHistory =
  ID_h :: go_int
  NumPlayers_h :: go_int
  NumSimilar_h :: go_int
  Score_h :: go_int
  DatetimeFinished_h :: GoTime
  Variant_h :: go_int
  OtherPlayerNames_h :: string

record PlayerNote =
  ID_n :: go_int
  Name_n :: string
  Notes_n :: "string list"

text \<open>
  The game. \<open>Players\<close> holds pointers, so it is a list of references into the player
  store. \<open>Spectators\<close> is a Go map from user id to session pointer: an association list
  written by \<open>map_set\<close>, whose order stands for the (unspecified) order in which
  \<open>range\<close> visits the map. The cards of the deck are only read here, so they are values.
\<close>

record Game =
  ID :: go_int
  Name :: string
  Owner :: go_int
  Options :: Options
  Players :: "pref list"
  Spectators :: "(go_int \<times> sref) list"
  DisconSpectators :: "(go_int \<times> bool) list"
  Running :: bool
  SharedReplay :: bool
  DatetimeCreated :: GoTime
  DatetimeStarted :: GoTime
  DatetimeFinished :: GoTime
  EndCondition :: go_int
  Seed :: string
  Deck :: "Card list"
  DeckIndex :: go_int
  Stacks :: "go_int list"
  Turn :: go_int
  ActivePlayer :: go_int
  Clues :: go_int
  Score :: go_int
  Progress :: go_int
  Strikes :: go_int
  Actions :: "Action list"
  DiscardSignal :: DiscardSignal
  Sound :: string
  TurnBeginTime :: GoTime
  EndTurn :: go_int
  BlindPlays :: go_int

text \<open>Go maps: \<open>m[k] = v\<close>, \<open>len(m)\<close>.\<close>

fun map_set :: "('k \<times> 'v) list \<Rightarrow> 'k \<Rightarrow> 'v \<Rightarrow> ('k \<times> 'v) list" where
  "map_set [] k v = [(k, v)]"
| "map_set ((k', v') # m) k v = (if k' = k then (k, v) # m else (k', v') # map_set m k v)"

definition map_len :: "('k \<times> 'v) list \<Rightarrow> nat" where
  "map_len m = length (remdups (map fst m))"

section \<open>Calls that leave the two files\<close>

text \<open>
  Every call to the logger, to a session, to the database, to the lobby and to the command
  handlers is recorded, with its arguments, as an event; a game passed by pointer is
  recorded as its reference. The events a function emits are returned in order.
\<close>

datatype AttrVal = IntVal go_int | StrVal string

datatype Payload =
    RevealMessage string Which
  | GameMessage string bool go_int go_int bool float64 go_int bool bool
  | GamePlayerMessage go_int string bool bool nat
  | TableReadyMessage bool

datatype Event =
    LogInfo string
  | LogError "string list"
  | Emit sref string Payload
  | NotifyGameAction sref Action gref
  | NotifyClock sref gref
  | NotifySpectators_s sref gref
  | NotifyAllTableGone gref
  | DbGamesInsert GameRow
  | DbGameParticipantsInsert go_int go_int "string list"
  | DbGameActionsInsert go_int string
  | DbGamesGetNumSimilar string
  | NotifyGameHistory sref "GameHistory list"
  | CommandChat "sref option" CommandData
  | SessionSet sref string AttrVal
  | NotifyAllUser sref
  | NotifyReplayLeader sref gref
  | NotifyAllNotes sref "PlayerNote list"
  | NotifyAllTable gref
  | CommandAction sref CommandData

section \<open>game.go\<close>

definition GetName :: "Game \<Rightarrow> string" where
  "GetName g = ''Game #'' @ Itoa (ID g) @ '' ('' @ Name g @ '') - Turn '' @ Itoa (Turn g) @ '' - ''"

definition MaxScore :: "Game \<Rightarrow> go_int" where
  "MaxScore g = of_nat (length (Stacks g)) * 5"

text \<open>
  The inner loop of \<open>CheckEnd\<close>: is there a card of the needed suit and rank that is not
  discarded? The outer loop visits the stacks with their index.
\<close>

fun deck_search :: "Card list \<Rightarrow> go_int \<Rightarrow> go_int \<Rightarrow> bool" where
  "deck_search [] neededSuit neededRank = False"
| "deck_search (c # cs) neededSuit neededRank =
     (if Suit c = neededSuit \<and> Rank c = neededRank \<and> \<not> Discarded c then True
      else deck_search cs neededSuit neededRank)"

fun stacks_search :: "Card list \<Rightarrow> nat \<Rightarrow> go_int list \<Rightarrow> bool" where
  "stacks_search deck i [] = False"
| "stacks_search deck i (stackLen # rest) =
     (if deck_search deck (of_nat i) (stackLen + 1) then True
      else stacks_search deck (Suc i) rest)"

text \<open>\<open>CheckEnd\<close> returns its result, the game as it leaves it, and the log lines.\<close>

definition CheckEnd :: "Game \<Rightarrow> bool \<times> Game \<times> Event list" where
  "CheckEnd g =
     (if Strikes g = 3 then
        (True, g\<lparr>EndCondition := 2\<rparr>,
         [LogInfo (GetName g @ ''3 strike maximum reached; ending the game.'')])
      else if Turn g = EndTurn g then
        (True, g\<lparr>EndCondition := 1\<rparr>,
         [LogInfo (GetName g @ ''Final turn reached; ending the game.'')])
      else if Score g = MaxScore g then
        (True, g\<lparr>EndCondition := 1\<rparr>,
         [LogInfo (GetName g @ ''Maximum score reached; ending the game.'')])
      else if stacks_search (Deck g) 0 (Stacks g) then (False, g, [])
      else
        (True, g\<lparr>EndCondition := 1\<rparr>,
         [LogInfo (GetName g @ ''No remaining cards can be played; ending the game.'')]))"

section \<open>The server's state\<close>

text \<open>
  What a call can change besides the game it is invoked on: the player objects that the
  game's pointers lead to, the global registry \<open>games\<close> from identifier to game pointer,
  and the calls made so far.
\<close>

record World =
  Heap :: "pref \<Rightarrow> Player"
  Games :: "go_int \<rightharpoonup> gref"
  Trace :: "Event list"

section \<open>CheckTimer\<close>

text \<open>
  The body of \<open>CheckTimer\<close> from the point where it holds \<open>commandMutex\<close>: the sleep
  before it touches nothing. \<open>commandAction\<close> is declared outside the two files; it is a
  parameter that may change the game and the world, and the call is recorded as well.
\<close>

definition CheckTimer ::
  "(sref \<Rightarrow> CommandData \<Rightarrow> Game \<times> World \<Rightarrow> Game \<times> World) \<Rightarrow>
   go_int \<Rightarrow> pref \<Rightarrow> Game \<times> World \<Rightarrow> Game \<times> World" where
  "CheckTimer commandAction turn p gw =
     (let (g, w) = gw in
      if 0 <s EndCondition g then (g, w)
      else if turn \<noteq> Turn g then (g, w)
      else
        let w = w\<lparr>Heap := (Heap w)(p := (Heap w p)\<lparr>Time := 0\<rparr>)\<rparr>;
            w = w\<lparr>Trace := Trace w @
                  [LogInfo (GetName g @ ''Time ran out for '' @ [CHR 0x22] @
                            Name_p (Heap w p) @ [CHR 0x22] @ ''.'')]\<rparr>;
            d = CommandData0\<lparr>Type_d := 4\<rparr>;
            w = w\<lparr>Trace := Trace w @ [CommandAction (Session (Heap w p)) d]\<rparr>
        in commandAction (Session (Heap w p)) d (g, w))"

section \<open>What the rest of the server answers\<close>

text \<open>
  The values that \<open>End\<close> gets from outside the two files: the clock, the helpers
  \<open>durationToString\<close> and \<open>variants\<close> of this repository, \<open>strings.ToLower\<close>,
  the conversion of a \<open>float64\<close> to \<open>int\<close>, \<open>json.Marshal\<close>, the identity accessor of
  a session, and the result of each database call. A failure is \<open>Inl\<close> of the error (or
  \<open>Some\<close> error for a call that returns only an error). The inserts made in a loop get
  the position of the call as well, so that two calls with the same arguments may differ.
\<close>

record Env =
  now :: GoTime
  durationToString :: "Duration \<Rightarrow> string"
  variants :: "go_int \<Rightarrow> string"
  ToLower :: "string \<Rightarrow> string"
  float64_to_int :: "float64 \<Rightarrow> go_int"
  Marshal :: "Action \<Rightarrow> string + string"
  UserID :: "sref \<Rightarrow> go_int"
  db_Games_Insert :: "GameRow \<Rightarrow> string + go_int"
  db_GameParticipants_Insert :: "nat \<Rightarrow> go_int \<Rightarrow> go_int \<Rightarrow> string list \<Rightarrow> string option"
  db_GameActions_Insert :: "nat \<Rightarrow> go_int \<Rightarrow> string \<Rightarrow> string option"
  db_Games_GetNumSimilar :: "string \<Rightarrow> string + go_int"

section \<open>The notify functions that End calls\<close>

text \<open>
  \<open>NotifyAction\<close> reads the last action of the log; on an empty log the index is out of
  range and the program panics, which is the result \<open>None\<close>.
\<close>

definition NotifyAction :: "gref \<Rightarrow> (pref \<Rightarrow> Player) \<Rightarrow> Game \<Rightarrow> Event list option" where
  "NotifyAction self heap g =
     (if Actions g = [] then None
      else
        let a = last (Actions g) in
        Some (map (\<lambda>p. NotifyGameAction (Session (heap p)) a self) (Players g) @
              map (\<lambda>(uid, s). NotifyGameAction s a self) (Spectators g)))"

definition NotifyTime :: "gref \<Rightarrow> (pref \<Rightarrow> Player) \<Rightarrow> Game \<Rightarrow> Event list" where
  "NotifyTime self heap g =
     map (\<lambda>p. NotifyClock (Session (heap p)) self) (Players g) @
     map (\<lambda>(uid, s). NotifyClock s self) (Spectators g)"

definition NotifySpectators :: "gref \<Rightarrow> (pref \<Rightarrow> Player) \<Rightarrow> Game \<Rightarrow> Event list" where
  "NotifySpectators self heap g =
     map (\<lambda>p. NotifySpectators_s (Session (heap p)) self) (Players g) @
     map (\<lambda>(uid, s). NotifySpectators_s s self) (Spectators g)"

definition NotifyPlayerChange :: "(pref \<Rightarrow> Player) \<Rightarrow> Game \<Rightarrow> Event list" where
  "NotifyPlayerChange heap g =
     concat (map (\<lambda>p.
       [Emit (Session (heap p)) ''game''
          (GameMessage (Name g) (Running g) (of_nat (length (Players g)))
             (Variant (Options g)) (Timed (Options g)) (TimeBase (Options g))
             (TimePerTurn (Options g)) (ReorderCards (Options g)) (SharedReplay g))] @
       map (\<lambda>(j, p2).
              Emit (Session (heap p)) ''gamePlayer''
                (GamePlayerMessage (of_nat j) (Name_p (heap p2)) (ID_p (heap p) = ID_p (heap p2))
                   (Present (heap p2)) (Stats (heap p2))))
           (enumerate 0 (Players g)) @
       (if ID_p (heap p) = Owner g
        then [Emit (Session (heap p)) ''tableReady'' (TableReadyMessage (2 \<le> length (Players g)))]
        else []))
       (Players g))"

section \<open>gameEnd.go\<close>

text \<open>
  \<open>End\<close> in three parts, in the order of the source. \<open>End_finish\<close> is the source from the
  finish timestamp to \<open>notifyAllTableGone\<close>: the finishing times, the \<open>gameOver\<close> action
  and its broadcast, the clock message, the reveal messages, the zeroing of the score.
\<close>

definition finishing_times :: "Env \<Rightarrow> (pref \<Rightarrow> Player) \<Rightarrow> Game \<Rightarrow> Game \<times> Event list" where
  "finishing_times env heap g =
     (if Timed (Options g) then
        let g = g\<lparr>Actions := Actions g @
                  [Action0\<lparr>Type_a := ''turn'', Num_a := Turn g, Who_a := ActivePlayer g\<rparr>]\<rparr>;
            texts = map (\<lambda>p. Name_p (heap p) @ '' finished with a time of '' @
                              durationToString env (Time (heap p))) (Players g)
        in (g\<lparr>Actions := Actions g @ map (\<lambda>text. Action0\<lparr>Text_a := text\<rparr>) texts\<rparr>,
            map (\<lambda>text. LogInfo (GetName g @ text)) texts)
      else
        let totalTime = foldl (\<lambda>t p. t + Time (heap p)) 0 (Players g);
            totalTime = totalTime * (- 1);
            text = ''The total game duration was: '' @ durationToString env totalTime
        in (g\<lparr>Actions := Actions g @ [Action0\<lparr>Text_a := text\<rparr>]\<rparr>,
            [LogInfo (GetName g @ text)]))"

definition reveal_hands :: "(pref \<Rightarrow> Player) \<Rightarrow> Game \<Rightarrow> Event list" where
  "reveal_hands heap g =
     concat (map (\<lambda>p.
       map (\<lambda>c. Emit (Session (heap p)) ''notify''
                  (RevealMessage ''reveal'' \<lparr>Rank_w = Rank c, Suit_w = Suit c, Order_w = Order c\<rparr>))
           (Hand (heap p)))
       (Players g))"

definition End_finish ::
  "Env \<Rightarrow> gref \<Rightarrow> (pref \<Rightarrow> Player) \<Rightarrow> Game \<Rightarrow> (Game \<times> Event list) option" where
  "End_finish env self heap g =
     (let g = g\<lparr>DatetimeFinished := now env\<rparr>;
          (g, ev1) = finishing_times env heap g;
          loss = (1 <s EndCondition g);
          g = g\<lparr>Actions := Actions g @
                [Action0\<lparr>Type_a := ''gameOver'', Score_a := Score g, Loss_a := loss\<rparr>]\<rparr>
      in (case NotifyAction self heap g of
            None \<Rightarrow> None
          | Some ev2 \<Rightarrow>
              let ev3 = NotifyTime self heap g;
                  ev4 = reveal_hands heap g;
                  g = (if 1 <s EndCondition g then g\<lparr>Score := 0\<rparr> else g);
                  ev5 = [LogInfo (GetName g @ ''Ended with a score of '' @ Itoa (Score g) @ ''.''),
                         NotifyAllTableGone self]
              in Some (g, ev1 @ ev2 @ ev3 @ ev4 @ ev5)))"

text \<open>
  \<open>End_record\<close> is the database part: the game row, a row for each participant, a row for
  each action, the number of games on the seed. Each loop stops at the first failure, with
  the error logged; the flag says whether the loop ran to its end.
\<close>

definition game_row :: "Env \<Rightarrow> Game \<Rightarrow> GameRow" where
  "game_row env g =
     \<lparr>Name_r = Name g, Owner_r = Owner g, Variant_r = Variant (Options g),
      TimeBase_r = float64_to_int env (TimeBase (Options g)),
      TimePerTurn_r = TimePerTurn (Options g), Seed_r = Seed g, Score_r = Score g,
      EndCondition_r = EndCondition g, DatetimeCreated_r = DatetimeCreated g,
      DatetimeStarted_r = DatetimeStarted g\<rparr>"

fun insert_participants ::
  "Env \<Rightarrow> (pref \<Rightarrow> Player) \<Rightarrow> go_int \<Rightarrow> nat \<Rightarrow> pref list \<Rightarrow> Event list \<times> bool" where
  "insert_participants env heap databaseID i [] = ([], True)"
| "insert_participants env heap databaseID i (p # ps) =
     (case db_GameParticipants_Insert env i (ID_p (heap p)) databaseID (Notes (heap p)) of
        Some err \<Rightarrow>
          ([DbGameParticipantsInsert (ID_p (heap p)) databaseID (Notes (heap p)),
            LogError [''Failed to insert the game participant row:'', err]], False)
      | None \<Rightarrow>
          (let (evs, ok) = insert_participants env heap databaseID (Suc i) ps
           in (DbGameParticipantsInsert (ID_p (heap p)) databaseID (Notes (heap p)) # evs, ok)))"

fun insert_actions :: "Env \<Rightarrow> go_int \<Rightarrow> nat \<Rightarrow> Action list \<Rightarrow> Event list \<times> bool" where
  "insert_actions env databaseID j [] = ([], True)"
| "insert_actions env databaseID j (a # as) =
     (case Marshal env a of
        Inl err \<Rightarrow> ([LogError [''Failed to convert the action to JSON:'', err]], False)
      | Inr aString \<Rightarrow>
          (case db_GameActions_Insert env j databaseID aString of
             Some err \<Rightarrow>
               ([DbGameActionsInsert databaseID aString,
                 LogError [''Failed to insert the action row:'', err]], False)
           | None \<Rightarrow>
               (let (evs, ok) = insert_actions env databaseID (Suc j) as
                in (DbGameActionsInsert databaseID aString # evs, ok))))"

definition End_record ::
  "Env \<Rightarrow> (pref \<Rightarrow> Player) \<Rightarrow> Game \<Rightarrow> Event list \<times> (go_int \<times> go_int) option" where
  "End_record env heap g =
     (let row = game_row env g in
      case db_Games_Insert env row of
        Inl err \<Rightarrow> ([DbGamesInsert row, LogError [''Failed to insert the game row:'', err]], None)
      | Inr databaseID \<Rightarrow>
          let (ev1, ok1) = insert_participants env heap databaseID 0 (Players g) in
          if \<not> ok1 then (DbGamesInsert row # ev1, None)
          else
            let (ev2, ok2) = insert_actions env databaseID 0 (Actions g) in
            if \<not> ok2 then (DbGamesInsert row # (ev1 @ ev2), None)
            else
              (case db_Games_GetNumSimilar env (Seed g) of
                 Inl err \<Rightarrow>
                   (DbGamesInsert row # ev1 @ ev2 @
                    [DbGamesGetNumSimilar (Seed g),
                     LogError [''Failed to get the number of games on seed '' @ Seed g @ '':'', err]],
                    None)
               | Inr numSimilar \<Rightarrow>
                   (DbGamesInsert row # ev1 @ ev2 @ [DbGamesGetNumSimilar (Seed g)],
                    Some (databaseID, numSimilar))))"

text \<open>
  \<open>End_share\<close> is the rest: the history messages, the lobby announcement, the move of the
  game to its database identifier in the registry, and the players becoming spectators.
\<close>

definition otherPlayerNames :: "(pref \<Rightarrow> Player) \<Rightarrow> Game \<Rightarrow> pref \<Rightarrow> string" where
  "otherPlayerNames heap g p =
     TrimSuffix
       (concat (map (\<lambda>p2. Name_p (heap p2) @ '', '')
                    (filter (\<lambda>p2. Name_p (heap p2) \<noteq> Name_p (heap p)) (Players g))))
       '', ''"

definition game_history :: "(pref \<Rightarrow> Player) \<Rightarrow> Game \<Rightarrow> go_int \<Rightarrow> go_int \<Rightarrow> Event list" where
  "game_history heap g databaseID numSimilar =
     map (\<lambda>p. NotifyGameHistory (Session (heap p))
                [\<lparr>ID_h = databaseID, NumPlayers_h = of_nat (length (Players g)),
                  NumSimilar_h = numSimilar, Score_h = Score g,
                  DatetimeFinished_h = DatetimeFinished g, Variant_h = Variant (Options g),
                  OtherPlayerNames_h = otherPlayerNames heap g p\<rparr>])
         (Players g)"

definition announceGameResult :: "Env \<Rightarrow> (pref \<Rightarrow> Player) \<Rightarrow> Game \<Rightarrow> go_int \<Rightarrow> Event list" where
  "announceGameResult env heap g databaseID =
     (let pogChamp = ''<:PogChamp:254683883033853954>'';
          bibleThump = ''<:BibleThump:254683882601840641>'';
          playerList = map (\<lambda>p. Name_p (heap p)) (Players g);
          msg = ''['' @ Join playerList '', '' @ ''] '';
          msg = msg @ ''finished a '' @ ToLower env (variants env (Variant (Options g))) @ '' '';
          msg = msg @ ''game with a score of '' @ Itoa (Score g) @ ''. '';
          msg = msg @ (if Score g = MaxScore g then pogChamp @ '' ''
                       else if Score g = 0 then bibleThump @ '' '' else []);
          msg = msg @ ''(#'' @ Itoa databaseID @ '' - '' @ Name g @ '')''
      in [CommandChat None (CommandData0\<lparr>Server_d := True, Msg_d := msg, Room_d := ''lobby''\<rparr>)])"

fun players_to_spectators ::
  "Env \<Rightarrow> (pref \<Rightarrow> Player) \<Rightarrow> pref list \<Rightarrow> (go_int \<times> sref) list \<Rightarrow>
   (go_int \<times> sref) list \<times> Event list" where
  "players_to_spectators env heap [] spectators = (spectators, [])"
| "players_to_spectators env heap (p # ps) spectators =
     (let ev = SessionSet (Session (heap p)) ''currentGame'' (IntVal (- 1));
          spectators =
            (if \<not> Present (heap p) then spectators
             else map_set spectators (UserID env (Session (heap p))) (Session (heap p)));
          (spectators, evs) = players_to_spectators env heap ps spectators
      in (spectators, ev # evs))"

definition replay_spectators :: "gref \<Rightarrow> Game \<Rightarrow> PlayerNote list \<Rightarrow> Event list" where
  "replay_spectators self g notes =
     concat (map (\<lambda>(uid, s).
       [SessionSet s ''currentGame'' (IntVal (ID g)),
        SessionSet s ''status'' (StrVal ''Shared Replay''),
        NotifyAllUser s, NotifyReplayLeader s self, NotifyAllNotes s notes])
       (Spectators g))"

definition End_share ::
  "Env \<Rightarrow> gref \<Rightarrow> go_int \<Rightarrow> go_int \<Rightarrow> Game \<Rightarrow> World \<Rightarrow> Game \<times> World" where
  "End_share env self databaseID numSimilar g w =
     (let heap = Heap w;
          ev1 = game_history heap g databaseID numSimilar @
                announceGameResult env heap g databaseID @
                [LogInfo ''Finished database actions for the end of the game.'']
      in
      if Games w databaseID \<noteq> None then
        (g, w\<lparr>Trace := Trace w @ ev1 @
               [LogError [''Failed to turn the game into a shared replay since there already exists a game with an ID of '' @
                          Itoa databaseID @ ''.'']]\<rparr>)
      else
        let games = (Games w)(ID g := None);
            g = g\<lparr>ID := databaseID\<rparr>;
            games = games(ID g \<mapsto> self);
            g = g\<lparr>SharedReplay := True\<rparr>;
            g = g\<lparr>Name := ''Shared replay for game #'' @ Itoa (ID g)\<rparr>;
            notes = map (\<lambda>p. \<lparr>ID_n = ID_p (heap p), Name_n = Name_p (heap p),
                               Notes_n = Notes (heap p)\<rparr>) (Players g);
            (spectators, ev2) = players_to_spectators env heap (Players g) (Spectators g);
            g = g\<lparr>Spectators := spectators\<rparr>;
            g = g\<lparr>Players := []\<rparr>
        in
        if map_len (Spectators g) = 0 then
          (g, w\<lparr>Games := games(ID g := None), Trace := Trace w @ ev1 @ ev2\<rparr>)
        else
          (g, w\<lparr>Games := games,
                Trace := Trace w @ ev1 @ ev2 @ replay_spectators self g notes @
                         [NotifyAllTable self] @ NotifyPlayerChange heap g @
                         NotifySpectators self heap g\<rparr>))"

text \<open>\<open>End\<close> on the game at address \<open>self\<close>. \<open>None\<close> is a panic.\<close>

definition End :: "Env \<Rightarrow> gref \<Rightarrow> Game \<times> World \<Rightarrow> (Game \<times> World) option" where
  "End env self gw =
     (let (g, w) = gw in
      case End_finish env self (Heap w) g of
        None \<Rightarrow> None
      | Some (g, ev1) \<Rightarrow>
          let (ev2, recorded) = End_record env (Heap w) g;
              w = w\<lparr>Trace := Trace w @ ev1 @ ev2\<rparr>
          in (case recorded of
                None \<Rightarrow> Some (g, w)
              | Some (databaseID, numSimilar) \<Rightarrow>
                  Some (End_share env self databaseID numSimilar g w)))"

section \<open>What the end-of-game rule says\<close>

text \<open>
  The fourth rule in the words of the specification: for every suit index \<open>i\<close> with stack
  height \<open>h\<close>, every card of that suit with rank \<open>h + 1\<close> in the full deck is marked
  discarded. It is compared below with the loops of \<open>CheckEnd\<close>.
\<close>

definition no_playable_card :: "Game \<Rightarrow> bool" where
  "no_playable_card g =
     (\<forall>i < length (Stacks g). \<forall>c \<in> set (Deck g).
        Suit c = of_nat i \<and> Rank c = Stacks g ! i + 1 \<longrightarrow> Discarded c)"

abbreviation CheckEnd_ret :: "Game \<Rightarrow> bool" where
  "CheckEnd_ret g \<equiv> fst (CheckEnd g)"

abbreviation CheckEnd_game :: "Game \<Rightarrow> Game" where
  "CheckEnd_game g \<equiv> fst (snd (CheckEnd g))"

section \<open>Reading the record of calls\<close>

text \<open>
  What a list of events holds: the game rows handed to the database, the history entries
  sent to players, the chat commands, and the actions sent to sessions.
\<close>

fun ev_rows :: "Event \<Rightarrow> GameRow list" where
  "ev_rows (DbGamesInsert row) = [row]"
| "ev_rows _ = []"

fun ev_histories :: "Event \<Rightarrow> GameHistory list" where
  "ev_histories (NotifyGameHistory s hs) = hs"
| "ev_histories _ = []"

fun ev_chats :: "Event \<Rightarrow> CommandData list" where
  "ev_chats (CommandChat s d) = [d]"
| "ev_chats _ = []"

fun ev_actions :: "Event \<Rightarrow> (sref \<times> Action) list" where
  "ev_actions (NotifyGameAction s a gr) = [(s, a)]"
| "ev_actions _ = []"

definition game_rows :: "Event list \<Rightarrow> GameRow list" where
  "game_rows evs = concat (map ev_rows evs)"

definition histories :: "Event list \<Rightarrow> GameHistory list" where
  "histories evs = concat (map ev_histories evs)"

definition chats :: "Event list \<Rightarrow> CommandData list" where
  "chats evs = concat (map ev_chats evs)"

definition broadcasts :: "Event list \<Rightarrow> (sref \<times> Action) list" where
  "broadcasts evs = concat (map ev_actions evs)"

text \<open>
  The game and the world that \<open>End\<close> returns, and the events it adds. \<open>End\<close> never
  panics (\<open>End_eq\<close> below), so the result is always there.
\<close>

definition End_game :: "Env \<Rightarrow> gref \<Rightarrow> Game \<times> World \<Rightarrow> Game" where
  "End_game env self gw = fst (the (End env self gw))"

definition End_world :: "Env \<Rightarrow> gref \<Rightarrow> Game \<times> World \<Rightarrow> World" where
  "End_world env self gw = snd (the (End env self gw))"

definition End_events :: "Env \<Rightarrow> gref \<Rightarrow> Game \<times> World \<Rightarrow> Event list" where
  "End_events env self gw = drop (length (Trace (snd gw))) (Trace (End_world env self gw))"

text \<open>
  The \<open>gameOver\<close> action that \<open>End\<close> builds from the game it is called on, and the
  sessions that \<open>NotifyAction\<close> sends to: the players, then the spectators.
\<close>

definition gameOver :: "Game \<Rightarrow> Action" where
  "gameOver g = Action0\<lparr>Type_a := ''gameOver'', Score_a := Score g, Loss_a := (1 <s EndCondition g)\<rparr>"

definition audience :: "(pref \<Rightarrow> Player) \<Rightarrow> Game \<Rightarrow> sref list" where
  "audience heap g = map (\<lambda>p. Session (heap p)) (Players g) @ map snd (Spectators g)"

section \<open>The players who become spectators\<close>

text \<open>
  The players whose \<open>Present\<close> flag is set, in the order of the player list, and the
  user id under which a player's session is entered in the \<open>Spectators\<close> map.
\<close>

definition present_players :: "(pref \<Rightarrow> Player) \<Rightarrow> Game \<Rightarrow> pref list" where
  "present_players heap g = filter (\<lambda>p. Present (heap p)) (Players g)"

definition user_id :: "Env \<Rightarrow> (pref \<Rightarrow> Player) \<Rightarrow> pref \<Rightarrow> go_int" where
  "user_id env heap p = UserID env (Session (heap p))"

section \<open>The database calls of End, one by one\<close>

text \<open>
  The persistence calls in the order \<open>End\<close> makes them: the game row, the row of the
  participant at each position of the player list, the row of the action at each position
  of the log, the count of games on the seed. \<open>call_fails\<close> says that a call is reached
  (every call before it succeeded, and every action before it and its own were converted
  to JSON) and returns a failure; \<open>call_event\<close> is the call with its arguments. Both
  are about the game as \<open>End_finish\<close> leaves it, \<open>End_finished\<close>, since that is the
  game the rows are made from.
\<close>

datatype DbCall = GameInsert | ParticipantInsert nat | ActionInsert nat | NumSimilar

definition participant_ok :: "Env \<Rightarrow> (pref \<Rightarrow> Player) \<Rightarrow> go_int \<Rightarrow> pref list \<Rightarrow> nat \<Rightarrow> bool" where
  "participant_ok env heap databaseID ps k =
     (db_GameParticipants_Insert env k (ID_p (heap (ps ! k))) databaseID (Notes (heap (ps ! k)))
        = None)"

definition action_ok :: "Env \<Rightarrow> go_int \<Rightarrow> Action list \<Rightarrow> nat \<Rightarrow> bool" where
  "action_ok env databaseID as k =
     (case Marshal env (as ! k) of
        Inl err \<Rightarrow> False
      | Inr aString \<Rightarrow> db_GameActions_Insert env k databaseID aString = None)"

definition action_refused :: "Env \<Rightarrow> go_int \<Rightarrow> Action list \<Rightarrow> nat \<Rightarrow> bool" where
  "action_refused env databaseID as k =
     (case Marshal env (as ! k) of
        Inl err \<Rightarrow> False
      | Inr aString \<Rightarrow> db_GameActions_Insert env k databaseID aString \<noteq> None)"

definition call_fails :: "Env \<Rightarrow> (pref \<Rightarrow> Player) \<Rightarrow> Game \<Rightarrow> DbCall \<Rightarrow> bool" where
  "call_fails env heap g c =
     (case db_Games_Insert env (game_row env g) of
        Inl err \<Rightarrow> c = GameInsert
      | Inr databaseID \<Rightarrow>
          (case c of
             GameInsert \<Rightarrow> False
           | ParticipantInsert i \<Rightarrow>
               i < length (Players g) \<and>
               (\<forall>k < i. participant_ok env heap databaseID (Players g) k) \<and>
               \<not> participant_ok env heap databaseID (Players g) i
           | ActionInsert j \<Rightarrow>
               (\<forall>k < length (Players g). participant_ok env heap databaseID (Players g) k) \<and>
               j < length (Actions g) \<and>
               (\<forall>k < j. action_ok env databaseID (Actions g) k) \<and>
               action_refused env databaseID (Actions g) j
           | NumSimilar \<Rightarrow>
               (\<forall>k < length (Players g). participant_ok env heap databaseID (Players g) k) \<and>
               (\<forall>k < length (Actions g). action_ok env databaseID (Actions g) k) \<and>
               isl (db_Games_GetNumSimilar env (Seed g))))"

definition call_event :: "Env \<Rightarrow> (pref \<Rightarrow> Player) \<Rightarrow> Game \<Rightarrow> DbCall \<Rightarrow> Event" where
  "call_event env heap g c =
     (let databaseID = projr (db_Games_Insert env (game_row env g)) in
      case c of
        GameInsert \<Rightarrow> DbGamesInsert (game_row env g)
      | ParticipantInsert i \<Rightarrow>
          DbGameParticipantsInsert (ID_p (heap (Players g ! i))) databaseID
            (Notes (heap (Players g ! i)))
      | ActionInsert j \<Rightarrow> DbGameActionsInsert databaseID (projr (Marshal env (Actions g ! j)))
      | NumSimilar \<Rightarrow> DbGamesGetNumSimilar (Seed g))"

definition End_finished :: "Env \<Rightarrow> gref \<Rightarrow> (pref \<Rightarrow> Player) \<Rightarrow> Game \<Rightarrow> Game" where
  "End_finished env self heap g = fst (the (End_finish env self heap g))"

section \<open>Sample values\<close>

text \<open>A game and a card with every field at its zero value, except the final turn.\<close>

definition Game0 :: Game where
  "Game0 = \<lparr>ID = 0, Name = [], Owner = 0,
     Options = \<lparr>Variant = 0, Timed = False, TimeBase = 0, TimePerTurn = 0, ReorderCards = False\<rparr>,
     Players = [], Spectators = [], DisconSpectators = [], Running = False, SharedReplay = False,
     DatetimeCreated = 0, DatetimeStarted = 0, DatetimeFinished = 0, EndCondition = 0,
     Seed = [], Deck = [], DeckIndex = 0, Stacks = [], Turn = 0, ActivePlayer = 0, Clues = 0,
     Score = 0, Progress = 0, Strikes = 0, Actions = [],
     DiscardSignal = \<lparr>Outstanding = False, TurnExpiration = 0\<rparr>,
     Sound = [], TurnBeginTime = 0, EndTurn = - 1, BlindPlays = 0\<rparr>"

definition Card0 :: Card where
  "Card0 = \<lparr>Suit = 0, Rank = 0, Order = 0, Discarded = False\<rparr>"

text \<open>
  A player with every field at its zero value, a store that holds only such players, a
  world with nothing registered and nothing called, and a \<open>commandAction\<close> that does
  nothing.
\<close>

definition Player0 :: Player where
  "Player0 = \<lparr>ID_p = 0, Name_p = [], Hand = [], Time = 0, Notes = [], Present = False,
     Session = 0, Stats = 0\<rparr>"

definition Heap0 :: "pref \<Rightarrow> Player" where
  "Heap0 = (\<lambda>p. Player0)"

definition World0 :: World where
  "World0 = \<lparr>Heap = Heap0, Games = Map.empty, Trace = []\<rparr>"

definition commandAction_skip :: "sref \<Rightarrow> CommandData \<Rightarrow> Game \<times> World \<Rightarrow> Game \<times> World" where
  "commandAction_skip s d gw = gw"

text \<open>
  An environment in which every call succeeds: the database gives the game the identifier
  77 and counts 3 games on the seed; user ids are the session addresses.
\<close>

definition Env0 :: Env where
  "Env0 = \<lparr>now = 1000, durationToString = (\<lambda>d. Itoa d), variants = (\<lambda>v. ''No Variant''),
     ToLower = (\<lambda>s. s), float64_to_int = (\<lambda>f. 0), Marshal = (\<lambda>a. Inr (Type_a a)),
     UserID = (\<lambda>s. of_nat s), db_Games_Insert = (\<lambda>row. Inr 77),
     db_GameParticipants_Insert = (\<lambda>i pid gid notes. None),
     db_GameActions_Insert = (\<lambda>j gid a. None),
     db_Games_GetNumSimilar = (\<lambda>seed. Inr 3)\<rparr>"

text \<open>
  A lost game (strikeout, true score 7) at address 1, registered under the identifier 5,
  with one player, who is present. \<open>Env1\<close> is \<open>Env0\<close> with a database that hands out
  the identifier 78.
\<close>

definition Game1 :: Game where
  "Game1 = Game0\<lparr>ID := 5, Players := [0], EndCondition := 2, Score := 7, Stacks := [5, 2]\<rparr>"

definition World1 :: World where
  "World1 = World0\<lparr>Heap := Heap0(0 := Player0\<lparr>Name_p := ''al'', Present := True, Session := 10\<rparr>),
                   Games := [5 \<mapsto> 1]\<rparr>"

definition Env1 :: Env where
  "Env1 = Env0\<lparr>db_Games_Insert := (\<lambda>row. Inr 78)\<rparr>"

text \<open>\<open>Game1\<close> with somebody already watching: user 3, on session 30.\<close>

definition Game2 :: Game where
  "Game2 = Game1\<lparr>Spectators := [(3, 30)]\<rparr>"

text \<open>
  Four databases that fail: on the game row, on the first participant, on the second
  action, on the count.
\<close>

definition EnvG :: Env where
  "EnvG = Env0\<lparr>db_Games_Insert := (\<lambda>row. Inl ''down'')\<rparr>"

definition EnvP :: Env where
  "EnvP = Env0\<lparr>db_GameParticipants_Insert := (\<lambda>i pid gid notes. Some ''down'')\<rparr>"

definition EnvA :: Env where
  "EnvA = Env0\<lparr>db_GameActions_Insert := (\<lambda>j gid a. if j = 1 then Some ''down'' else None)\<rparr>"

definition EnvN :: Env where
  "EnvN = Env0\<lparr>db_Games_GetNumSimilar := (\<lambda>seed. Inl ''down'')\<rparr>"

section \<open>The loops of CheckEnd\<close>

lemma deck_search_iff:
  "deck_search deck s r \<longleftrightarrow> (\<exists>c \<in> set deck. Suit c = s \<and> Rank c = r \<and> \<not> Discarded c)"
  by (induction deck) auto

lemma stacks_search_iff:
  "stacks_search deck k stacks \<longleftrightarrow>
     (\<exists>i < length stacks. \<exists>c \<in> set deck.
        Suit c = of_nat (k + i) \<and> Rank c = stacks ! i + 1 \<and> \<not> Discarded c)"
proof (induction stacks arbitrary: k)
  case Nil
  show ?case by simp
next
  case (Cons h rest)
  have ex_Suc: "\<And>P. (\<exists>i < Suc (length rest). P i) \<longleftrightarrow> P 0 \<or> (\<exists>i < length rest. P (Suc i))"
    by (metis less_Suc_eq_0_disj)
  show ?case
    by (auto simp add: deck_search_iff Cons.IH ex_Suc simp del: of_nat_Suc of_nat_add)
qed

lemma stacks_search_no_playable:
  "stacks_search (Deck g) 0 (Stacks g) \<longleftrightarrow> \<not> no_playable_card g"
  by (auto simp: stacks_search_iff no_playable_card_def)

section \<open>CheckEnd\<close>

text \<open>
  C1. \<open>CheckEnd\<close> tries its rules in order and stops at the first that matches: three
  strikes set \<open>EndCondition\<close> to 2 and return true; otherwise the final turn, then the
  maximum score (five times the number of stacks), then the absence of a playable card each
  set \<open>EndCondition\<close> to 1 and return true; otherwise it returns false and leaves the game,
  and so an \<open>EndCondition\<close> of 0, as it was.
\<close>

theorem CheckEnd_priority:
  "MaxScore g = 5 * of_nat (length (Stacks g)) \<and>
   (Strikes g = 3 \<longrightarrow>
      CheckEnd_ret g \<and> CheckEnd_game g = g\<lparr>EndCondition := 2\<rparr>) \<and>
   (Strikes g \<noteq> 3 \<and> Turn g = EndTurn g \<longrightarrow>
      CheckEnd_ret g \<and> CheckEnd_game g = g\<lparr>EndCondition := 1\<rparr>) \<and>
   (Strikes g \<noteq> 3 \<and> Turn g \<noteq> EndTurn g \<and> Score g = MaxScore g \<longrightarrow>
      CheckEnd_ret g \<and> CheckEnd_game g = g\<lparr>EndCondition := 1\<rparr>) \<and>
   (Strikes g \<noteq> 3 \<and> Turn g \<noteq> EndTurn g \<and> Score g \<noteq> MaxScore g \<and> no_playable_card g \<longrightarrow>
      CheckEnd_ret g \<and> CheckEnd_game g = g\<lparr>EndCondition := 1\<rparr>) \<and>
   (Strikes g \<noteq> 3 \<and> Turn g \<noteq> EndTurn g \<and> Score g \<noteq> MaxScore g \<and> \<not> no_playable_card g \<longrightarrow>
      \<not> CheckEnd_ret g \<and> CheckEnd_game g = g \<and>
      (EndCondition g = 0 \<longrightarrow> EndCondition (CheckEnd_game g) = 0))"
  by (simp add: CheckEnd_def MaxScore_def stacks_search_no_playable)

text \<open>One game for each of the five cases.\<close>

theorem CheckEnd_priority_witness:
  "CheckEnd_ret (Game0\<lparr>Strikes := 3, Turn := 0, EndTurn := 0\<rparr>) \<and>
   EndCondition (CheckEnd_game (Game0\<lparr>Strikes := 3, Turn := 0, EndTurn := 0\<rparr>)) = 2 \<and>
   CheckEnd_ret (Game0\<lparr>Strikes := 2, Turn := 7, EndTurn := 7\<rparr>) \<and>
   EndCondition (CheckEnd_game (Game0\<lparr>Strikes := 2, Turn := 7, EndTurn := 7\<rparr>)) = 1 \<and>
   CheckEnd_ret (Game0\<lparr>Stacks := [5], Score := 5, Deck := [Card0\<lparr>Rank := 6\<rparr>]\<rparr>) \<and>
   EndCondition (CheckEnd_game (Game0\<lparr>Stacks := [5], Score := 5, Deck := [Card0\<lparr>Rank := 6\<rparr>]\<rparr>)) = 1 \<and>
   CheckEnd_ret (Game0\<lparr>Stacks := [0], Deck := [Card0\<lparr>Rank := 1, Discarded := True\<rparr>]\<rparr>) \<and>
   EndCondition (CheckEnd_game (Game0\<lparr>Stacks := [0], Deck := [Card0\<lparr>Rank := 1, Discarded := True\<rparr>]\<rparr>)) = 1 \<and>
   \<not> CheckEnd_ret (Game0\<lparr>Stacks := [0], Deck := [Card0\<lparr>Rank := 1\<rparr>]\<rparr>) \<and>
   EndCondition (CheckEnd_game (Game0\<lparr>Stacks := [0], Deck := [Card0\<lparr>Rank := 1\<rparr>]\<rparr>)) = 0"
  using CheckEnd_priority [of "Game0\<lparr>Strikes := 3, Turn := 0, EndTurn := 0\<rparr>"]
    CheckEnd_priority [of "Game0\<lparr>Strikes := 2, Turn := 7, EndTurn := 7\<rparr>"]
    CheckEnd_priority [of "Game0\<lparr>Stacks := [5], Score := 5, Deck := [Card0\<lparr>Rank := 6\<rparr>]\<rparr>"]
    CheckEnd_priority [of "Game0\<lparr>Stacks := [0], Deck := [Card0\<lparr>Rank := 1, Discarded := True\<rparr>]\<rparr>"]
    CheckEnd_priority [of "Game0\<lparr>Stacks := [0], Deck := [Card0\<lparr>Rank := 1\<rparr>]\<rparr>"]
  by (simp add: Game0_def Card0_def MaxScore_def no_playable_card_def)

text \<open>
  C5, as stated: \<open>CheckEnd\<close> returns true if and only if no suit has a playable card left.
  With three strikes it returns true although the red 1 is still in the deck.
\<close>

theorem CheckEnd_iff_counterexample:
  "\<not> (CheckEnd_ret (Game0\<lparr>Strikes := 3, Stacks := [0], Deck := [Card0\<lparr>Rank := 1\<rparr>]\<rparr>) \<longleftrightarrow>
      no_playable_card (Game0\<lparr>Strikes := 3, Stacks := [0], Deck := [Card0\<lparr>Rank := 1\<rparr>]\<rparr>))"
  by (simp add: CheckEnd_def Game0_def Card0_def no_playable_card_def)

text \<open>
  C5, amended: \<open>CheckEnd\<close> returns true if and only if one of the three earlier rules
  matches (three strikes, the final turn, the maximum score) or, for every suit index \<open>i\<close>
  with stack height \<open>h\<close>, every card of that suit with rank \<open>h + 1\<close> in the full deck is
  marked discarded.
\<close>

theorem CheckEnd_iff:
  "CheckEnd_ret g \<longleftrightarrow>
     Strikes g = 3 \<or> Turn g = EndTurn g \<or> Score g = MaxScore g \<or> no_playable_card g"
  by (simp add: CheckEnd_def stacks_search_no_playable)

theorem CheckEnd_iff_witness:
  "\<not> CheckEnd_ret (Game0\<lparr>Stacks := [0], Deck := [Card0\<lparr>Rank := 1\<rparr>]\<rparr>) \<and>
   CheckEnd_ret (Game0\<lparr>Stacks := [0], Deck := [Card0\<lparr>Rank := 1, Discarded := True\<rparr>]\<rparr>)"
  using CheckEnd_iff [of "Game0\<lparr>Stacks := [0], Deck := [Card0\<lparr>Rank := 1\<rparr>]\<rparr>"]
    CheckEnd_iff [of "Game0\<lparr>Stacks := [0], Deck := [Card0\<lparr>Rank := 1, Discarded := True\<rparr>]\<rparr>"]
  by (simp add: Game0_def Card0_def MaxScore_def no_playable_card_def)

text \<open>
  C9, as stated: a call of \<open>CheckEnd\<close> on a game whose \<open>EndCondition\<close> is already nonzero
  leaves it at its value. A game that ended normally (1) and holds three strikes is
  rewritten to 2.
\<close>

theorem CheckEnd_write_once_counterexample:
  "EndCondition (Game0\<lparr>EndCondition := 1, Strikes := 3\<rparr>) \<noteq> 0 \<and>
   EndCondition (CheckEnd_game (Game0\<lparr>EndCondition := 1, Strikes := 3\<rparr>))
     \<noteq> EndCondition (Game0\<lparr>EndCondition := 1, Strikes := 3\<rparr>)"
  by (simp add: CheckEnd_def Game0_def)

text \<open>
  C9, amended: \<open>CheckEnd\<close> never resets \<open>EndCondition\<close> to 0. When it returns true it
  writes 2 (three strikes) or 1 (the other rules) whatever the value was; when it returns
  false it leaves \<open>EndCondition\<close> as it is. So a nonzero \<open>EndCondition\<close> stays nonzero.
\<close>

theorem CheckEnd_EndCondition:
  "(CheckEnd_ret g \<longrightarrow>
      EndCondition (CheckEnd_game g) = (if Strikes g = 3 then 2 else 1)) \<and>
   (\<not> CheckEnd_ret g \<longrightarrow> EndCondition (CheckEnd_game g) = EndCondition g) \<and>
   (EndCondition g \<noteq> 0 \<longrightarrow> EndCondition (CheckEnd_game g) \<noteq> 0)"
  by (simp add: CheckEnd_def)

theorem CheckEnd_EndCondition_witness:
  "EndCondition (Game0\<lparr>EndCondition := 3, Turn := 4, EndTurn := 4\<rparr>) \<noteq> 0 \<and>
   EndCondition (CheckEnd_game (Game0\<lparr>EndCondition := 3, Turn := 4, EndTurn := 4\<rparr>)) \<noteq> 0"
  using CheckEnd_EndCondition [of "Game0\<lparr>EndCondition := 3, Turn := 4, EndTurn := 4\<rparr>"]
  by (simp add: Game0_def)

text \<open>
  C10. \<open>CheckEnd\<close> writes no field of the game but \<open>EndCondition\<close>: strikes, score, turn,
  final turn, stacks, deck, action log and player list are as before, and when it returns
  false the whole game, \<open>EndCondition\<close> included, is as before.
\<close>

theorem CheckEnd_frame:
  "Strikes (CheckEnd_game g) = Strikes g \<and>
   Score (CheckEnd_game g) = Score g \<and>
   Turn (CheckEnd_game g) = Turn g \<and>
   EndTurn (CheckEnd_game g) = EndTurn g \<and>
   Stacks (CheckEnd_game g) = Stacks g \<and>
   Deck (CheckEnd_game g) = Deck g \<and>
   Actions (CheckEnd_game g) = Actions g \<and>
   Players (CheckEnd_game g) = Players g \<and>
   CheckEnd_game g = g\<lparr>EndCondition := EndCondition (CheckEnd_game g)\<rparr> \<and>
   (\<not> CheckEnd_ret g \<longrightarrow> CheckEnd_game g = g)"
  by (simp add: CheckEnd_def)

theorem CheckEnd_frame_witness:
  "\<not> CheckEnd_ret (Game0\<lparr>Stacks := [0], Deck := [Card0\<lparr>Rank := 1\<rparr>]\<rparr>) \<and>
   CheckEnd_game (Game0\<lparr>Stacks := [0], Deck := [Card0\<lparr>Rank := 1\<rparr>]\<rparr>) =
     Game0\<lparr>Stacks := [0], Deck := [Card0\<lparr>Rank := 1\<rparr>]\<rparr>"
proof -
  let ?g = "Game0\<lparr>Stacks := [0], Deck := [Card0\<lparr>Rank := 1\<rparr>]\<rparr>"
  have quiet: "\<not> CheckEnd_ret ?g"
    by (simp add: CheckEnd_def Game0_def Card0_def MaxScore_def)
  with CheckEnd_frame [of ?g] show ?thesis by simp
qed

section \<open>CheckTimer\<close>

lemma sle_nonzero_sless: "0 \<le>s (e :: go_int) \<Longrightarrow> e \<noteq> 0 \<Longrightarrow> 0 <s e"
proof -
  assume le: "0 \<le>s e" and ne: "e \<noteq> 0"
  have "(sint e = 0) = (e = 0)"
    using word_eq_iff_signed [where 'a = int, of e 0] by simp
  with le ne show ?thesis
    by (auto simp: word_sle_eq word_sless_alt)
qed

text \<open>
  C3. \<open>EndCondition\<close> is a cause code: 0 while the game runs, 1 for a normal end, 2 and
  above for a loss; it is never negative. If upon waking \<open>EndCondition\<close> is nonzero or
  the game's turn differs from the recorded turn, \<open>CheckTimer\<close> returns the game, the
  player objects (so the player's \<open>Time\<close>), the registry and the record of calls (so the
  action log, and no call of \<open>commandAction\<close>) as they were, whatever \<open>commandAction\<close>
  would do. The guard in the source is \<open>g.EndCondition > 0\<close>, which on these codes is
  the same as nonzero.
\<close>

theorem CheckTimer_stale:
  "0 \<le>s EndCondition g \<Longrightarrow> EndCondition g \<noteq> 0 \<or> Turn g \<noteq> turn \<Longrightarrow>
   CheckTimer commandAction turn p (g, w) = (g, w)"
  by (auto simp: CheckTimer_def dest: sle_nonzero_sless)

text \<open>
  A game that ended by strikeout, woken on its recorded turn, and a running game whose
  turn has moved on from 4 to 5; the player has 9 left on the clock in both.
\<close>

theorem CheckTimer_stale_witness:
  "0 \<le>s EndCondition (Game0\<lparr>EndCondition := 2\<rparr>) \<and>
   EndCondition (Game0\<lparr>EndCondition := 2\<rparr>) \<noteq> 0 \<and>
   CheckTimer commandAction_skip 0 0
       (Game0\<lparr>EndCondition := 2\<rparr>, World0\<lparr>Heap := Heap0(0 := Player0\<lparr>Time := 9\<rparr>)\<rparr>) =
     (Game0\<lparr>EndCondition := 2\<rparr>, World0\<lparr>Heap := Heap0(0 := Player0\<lparr>Time := 9\<rparr>)\<rparr>) \<and>
   0 \<le>s EndCondition (Game0\<lparr>Turn := 5\<rparr>) \<and>
   Turn (Game0\<lparr>Turn := 5\<rparr>) \<noteq> 4 \<and>
   CheckTimer commandAction_skip 4 0
       (Game0\<lparr>Turn := 5\<rparr>, World0\<lparr>Heap := Heap0(0 := Player0\<lparr>Time := 9\<rparr>)\<rparr>) =
     (Game0\<lparr>Turn := 5\<rparr>, World0\<lparr>Heap := Heap0(0 := Player0\<lparr>Time := 9\<rparr>)\<rparr>)"
proof -
  let ?w = "World0\<lparr>Heap := Heap0(0 := Player0\<lparr>Time := 9\<rparr>)\<rparr>"
  have d1: "0 \<le>s EndCondition (Game0\<lparr>EndCondition := 2\<rparr>)"
    and n1: "EndCondition (Game0\<lparr>EndCondition := 2\<rparr>) \<noteq> 0"
    by (simp_all add: Game0_def word_sle_eq)
  have d2: "0 \<le>s EndCondition (Game0\<lparr>Turn := 5\<rparr>)"
    and n2: "Turn (Game0\<lparr>Turn := 5\<rparr>) \<noteq> 4"
    by (simp_all add: Game0_def word_sle_eq)
  show ?thesis
    using d1 n1 d2 n2
      CheckTimer_stale [OF d1, of 0 commandAction_skip 0 ?w]
      CheckTimer_stale [OF d2, of 4 commandAction_skip 0 ?w]
    by simp
qed

text \<open>
  C8. A wake that is not stale (\<open>EndCondition\<close> is 0 and the turn is the recorded one)
  sets the player's \<open>Time\<close> to 0, logs the timeout and calls \<open>commandAction\<close> on the
  player's session with a command of type 4; the state \<open>CheckTimer\<close> leaves is the one
  \<open>commandAction\<close> returns.
\<close>

theorem CheckTimer_fires:
  "EndCondition g = 0 \<Longrightarrow> Turn g = turn \<Longrightarrow>
   CheckTimer commandAction turn p (g, w) =
     commandAction (Session (Heap w p)) (CommandData0\<lparr>Type_d := 4\<rparr>)
       (g, w\<lparr>Heap := (Heap w)(p := (Heap w p)\<lparr>Time := 0\<rparr>),
             Trace := Trace w @
               [LogInfo (GetName g @ ''Time ran out for '' @ [CHR 0x22] @ Name_p (Heap w p) @
                         [CHR 0x22] @ ''.''),
                CommandAction (Session (Heap w p)) (CommandData0\<lparr>Type_d := 4\<rparr>)]\<rparr>)"
  by (simp add: CheckTimer_def Let_def word_sless_alt)

theorem CheckTimer_fires_witness:
  "EndCondition (Game0\<lparr>Turn := 5\<rparr>) = 0 \<and> Turn (Game0\<lparr>Turn := 5\<rparr>) = 5 \<and>
   Time (Heap (snd (CheckTimer commandAction_skip 5 0
      (Game0\<lparr>Turn := 5\<rparr>, World0\<lparr>Heap := Heap0(0 := Player0\<lparr>Time := 9\<rparr>)\<rparr>))) 0) = 0 \<and>
   last (Trace (snd (CheckTimer commandAction_skip 5 0
      (Game0\<lparr>Turn := 5\<rparr>, World0\<lparr>Heap := Heap0(0 := Player0\<lparr>Time := 9\<rparr>)\<rparr>)))) =
     CommandAction 0 (CommandData0\<lparr>Type_d := 4\<rparr>)"
proof -
  have h1: "EndCondition (Game0\<lparr>Turn := 5\<rparr>) = 0" and h2: "Turn (Game0\<lparr>Turn := 5\<rparr>) = 5"
    by (simp_all add: Game0_def)
  show ?thesis
    using h1 h2 CheckTimer_fires [OF h1 h2, of commandAction_skip 0
        "World0\<lparr>Heap := Heap0(0 := Player0\<lparr>Time := 9\<rparr>)\<rparr>"]
    by (simp add: commandAction_skip_def World0_def Player0_def)
qed

section \<open>The events of End, part by part\<close>

lemma proj_append [simp]:
  "game_rows (a @ b) = game_rows a @ game_rows b"
  "histories (a @ b) = histories a @ histories b"
  "chats (a @ b) = chats a @ chats b"
  "broadcasts (a @ b) = broadcasts a @ broadcasts b"
  by (simp_all add: game_rows_def histories_def chats_def broadcasts_def)

lemma proj_Nil [simp]:
  "game_rows [] = []" "histories [] = []" "chats [] = []" "broadcasts [] = []"
  by (simp_all add: game_rows_def histories_def chats_def broadcasts_def)

lemma proj_Cons [simp]:
  "game_rows (e # a) = ev_rows e @ game_rows a"
  "histories (e # a) = ev_histories e @ histories a"
  "chats (e # a) = ev_chats e @ chats a"
  "broadcasts (e # a) = ev_actions e @ broadcasts a"
  by (simp_all add: game_rows_def histories_def chats_def broadcasts_def)

lemma finishing_times_fields:
  "finishing_times env heap g = (g1, ev) \<Longrightarrow>
     (\<exists>extra. g1 = g\<lparr>Actions := Actions g @ extra\<rparr>) \<and>
     game_rows ev = [] \<and> histories ev = [] \<and> chats ev = [] \<and> broadcasts ev = []"
  by (auto simp: finishing_times_def Let_def game_rows_def histories_def chats_def broadcasts_def
      split: if_splits)

lemma Itoa_0: "Itoa 0 = ''0''"
  by (simp add: Itoa_def digits10.simps)


lemma gameOver_simps [simp]:
  "Score_a (gameOver g) = Score g" "Loss_a (gameOver g) = (1 <s EndCondition g)"
  "Type_a (gameOver g) = ''gameOver''"
  by (simp_all add: gameOver_def)

lemma broadcasts_NotifyAction:
  "NotifyAction self heap g = Some ev \<Longrightarrow>
     broadcasts ev = map (\<lambda>s. (s, last (Actions g))) (audience heap g) \<and>
     game_rows ev = [] \<and> histories ev = [] \<and> chats ev = []"
  by (auto simp: NotifyAction_def Let_def audience_def broadcasts_def game_rows_def histories_def
      chats_def comp_def case_prod_unfold split: if_splits)

lemma quiet_NotifyTime:
  "broadcasts (NotifyTime self heap g) = []" "game_rows (NotifyTime self heap g) = []"
  "histories (NotifyTime self heap g) = []" "chats (NotifyTime self heap g) = []"
  by (auto simp: NotifyTime_def broadcasts_def game_rows_def histories_def chats_def)

lemma quiet_reveal_hands:
  "broadcasts (reveal_hands heap g) = []" "game_rows (reveal_hands heap g) = []"
  "histories (reveal_hands heap g) = []" "chats (reveal_hands heap g) = []"
  by (auto simp: reveal_hands_def broadcasts_def game_rows_def histories_def chats_def)

lemma End_finish_eq:
  obtains extra ev where
    "End_finish env self heap g =
       Some (g\<lparr>DatetimeFinished := now env, Actions := Actions g @ extra @ [gameOver g],
               Score := (if 1 <s EndCondition g then 0 else Score g)\<rparr>, ev)"
    "game_rows ev = []" "histories ev = []" "chats ev = []"
    "broadcasts ev = map (\<lambda>s. (s, gameOver g)) (audience heap g)"
proof -
  obtain g0 ev0 where ft: "finishing_times env heap (g\<lparr>DatetimeFinished := now env\<rparr>) = (g0, ev0)"
    by (cases "finishing_times env heap (g\<lparr>DatetimeFinished := now env\<rparr>)")
  from finishing_times_fields [OF ft] obtain extra where
    g0: "g0 = g\<lparr>DatetimeFinished := now env, Actions := Actions g @ extra\<rparr>"
    and q0: "game_rows ev0 = []" "histories ev0 = []" "chats ev0 = []" "broadcasts ev0 = []"
    by auto
  let ?g1 = "g0\<lparr>Actions := Actions g0 @ [gameOver g]\<rparr>"
  obtain ev2 where na: "NotifyAction self heap ?g1 = Some ev2"
    by (simp add: NotifyAction_def Let_def)
  have aud: "audience heap ?g1 = audience heap g"
    by (simp add: audience_def g0)
  note b2 = broadcasts_NotifyAction [OF na]
  let ?ev = "ev0 @ ev2 @ NotifyTime self heap ?g1 @ reveal_hands heap ?g1 @
     [LogInfo (GetName (if 1 <s EndCondition ?g1 then ?g1\<lparr>Score := 0\<rparr> else ?g1) @
        ''Ended with a score of '' @
        Itoa (Score (if 1 <s EndCondition ?g1 then ?g1\<lparr>Score := 0\<rparr> else ?g1)) @ ''.''),
      NotifyAllTableGone self]"
  have "End_finish env self heap g =
       Some (g\<lparr>DatetimeFinished := now env, Actions := Actions g @ extra @ [gameOver g],
               Score := (if 1 <s EndCondition g then 0 else Score g)\<rparr>, ?ev)"
    using na by (simp add: End_finish_def ft Let_def g0 gameOver_def)
  moreover have "game_rows ?ev = []" "histories ?ev = []" "chats ?ev = []"
    using q0 b2 by (simp_all add: quiet_NotifyTime quiet_reveal_hands)
  moreover have "broadcasts ?ev = map (\<lambda>s. (s, gameOver g)) (audience heap g)"
    using q0 b2 aud by (simp add: quiet_NotifyTime quiet_reveal_hands)
  ultimately show thesis by (rule that)
qed

lemma quiet_insert_participants:
  "insert_participants env heap databaseID i ps = (ev, ok) \<Longrightarrow>
     game_rows ev = [] \<and> histories ev = [] \<and> chats ev = [] \<and> broadcasts ev = []"
  by (induction ps arbitrary: i ev ok) (auto split: option.splits prod.splits)

lemma quiet_insert_actions:
  "insert_actions env databaseID j as = (ev, ok) \<Longrightarrow>
     game_rows ev = [] \<and> histories ev = [] \<and> chats ev = [] \<and> broadcasts ev = []"
  by (induction as arbitrary: j ev ok) (auto split: option.splits prod.splits sum.splits)

lemma End_record_rows:
  "End_record env heap g = (ev, r) \<Longrightarrow>
     game_rows ev = [game_row env g] \<and> histories ev = [] \<and> chats ev = [] \<and> broadcasts ev = []"
  by (auto simp: End_record_def Let_def split: sum.splits prod.splits if_splits
      dest!: quiet_insert_participants quiet_insert_actions)


lemma quiet_players_to_spectators:
  "players_to_spectators env heap ps sp = (sp', ev) \<Longrightarrow>
     game_rows ev = [] \<and> histories ev = [] \<and> chats ev = [] \<and> broadcasts ev = []"
  by (induction ps arbitrary: sp sp' ev) (auto simp: Let_def split: prod.splits)

lemma quiet_replay_spectators:
  "broadcasts (replay_spectators self g notes) = []" "game_rows (replay_spectators self g notes) = []"
  "histories (replay_spectators self g notes) = []" "chats (replay_spectators self g notes) = []"
  by (auto simp: replay_spectators_def broadcasts_def game_rows_def histories_def chats_def)

lemma quiet_NotifyPlayerChange:
  "broadcasts (NotifyPlayerChange heap g) = []" "game_rows (NotifyPlayerChange heap g) = []"
  "histories (NotifyPlayerChange heap g) = []" "chats (NotifyPlayerChange heap g) = []"
  by (auto simp: NotifyPlayerChange_def broadcasts_def game_rows_def histories_def chats_def)

lemma quiet_NotifySpectators:
  "broadcasts (NotifySpectators self heap g) = []" "game_rows (NotifySpectators self heap g) = []"
  "histories (NotifySpectators self heap g) = []" "chats (NotifySpectators self heap g) = []"
  by (auto simp: NotifySpectators_def broadcasts_def game_rows_def histories_def chats_def)

lemma game_history_scores:
  "broadcasts (game_history heap g databaseID n) = []"
  "game_rows (game_history heap g databaseID n) = []"
  "chats (game_history heap g databaseID n) = []"
  "\<forall>h \<in> set (histories (game_history heap g databaseID n)). Score_h h = Score g"
  by (auto simp: game_history_def broadcasts_def game_rows_def histories_def chats_def)

lemma announceGameResult_score:
  "broadcasts (announceGameResult env heap g databaseID) = []"
  "game_rows (announceGameResult env heap g databaseID) = []"
  "histories (announceGameResult env heap g databaseID) = []"
  "\<forall>d \<in> set (chats (announceGameResult env heap g databaseID)).
     \<exists>a b. Msg_d d = a @ ''game with a score of '' @ Itoa (Score g) @ ''. '' @ b"
proof -
  show "broadcasts (announceGameResult env heap g databaseID) = []"
    "game_rows (announceGameResult env heap g databaseID) = []"
    "histories (announceGameResult env heap g databaseID) = []"
    by (simp_all add: announceGameResult_def Let_def)
  let ?a = "''['' @ Join (map (\<lambda>p. Name_p (heap p)) (Players g)) '', '' @ ''] '' @
            ''finished a '' @ ToLower env (variants env (Variant (Options g))) @ '' ''"
  let ?b = "(if Score g = MaxScore g then ''<:PogChamp:254683883033853954>'' @ '' ''
             else if Score g = 0 then ''<:BibleThump:254683882601840641>'' @ '' '' else []) @
            ''(#'' @ Itoa databaseID @ '' - '' @ Name g @ '')''"
  let ?d = "CommandData0\<lparr>Server_d := True,
         Msg_d := ?a @ ''game with a score of '' @ Itoa (Score g) @ ''. '' @ ?b, Room_d := ''lobby''\<rparr>"
  have eq: "chats (announceGameResult env heap g databaseID) = [?d]"
    by (simp add: announceGameResult_def Let_def)
  have msg: "Msg_d ?d = ?a @ ''game with a score of '' @ Itoa (Score g) @ ''. '' @ ?b"
    by simp
  show "\<forall>d \<in> set (chats (announceGameResult env heap g databaseID)).
     \<exists>a b. Msg_d d = a @ ''game with a score of '' @ Itoa (Score g) @ ''. '' @ b"
    unfolding eq using msg by (simp only: set_simps ball_simps) blast
qed


lemma End_share_eq:
  obtains g' games' ev where
    "End_share env self databaseID n g w = (g', w\<lparr>Games := games', Trace := Trace w @ ev\<rparr>)"
    "game_rows ev = []" "broadcasts ev = []"
    "\<forall>h \<in> set (histories ev). Score_h h = Score g"
    "\<forall>d \<in> set (chats ev).
       \<exists>a b. Msg_d d = a @ ''game with a score of '' @ Itoa (Score g) @ ''. '' @ b"
    "Score g' = Score g" "Actions g' = Actions g"
proof -
  obtain sp ev2 where pts:
    "players_to_spectators env (Heap w) (Players g) (Spectators g) = (sp, ev2)"
    by (cases "players_to_spectators env (Heap w) (Players g) (Spectators g)")
  note q2 = quiet_players_to_spectators [OF pts]
  let ?ev1 = "game_history (Heap w) g databaseID n @ announceGameResult env (Heap w) g databaseID @
    [LogInfo ''Finished database actions for the end of the game.'']"
  have h1: "game_rows ?ev1 = []" "broadcasts ?ev1 = []"
    "\<forall>h \<in> set (histories ?ev1). Score_h h = Score g"
    "\<forall>d \<in> set (chats ?ev1).
       \<exists>a b. Msg_d d = a @ ''game with a score of '' @ Itoa (Score g) @ ''. '' @ b"
    using game_history_scores [of "Heap w" g databaseID n]
      announceGameResult_score [of env "Heap w" g databaseID]
    by simp_all
  obtain g' games' rest where
    eq: "End_share env self databaseID n g w =
           (g', w\<lparr>Games := games', Trace := Trace w @ ?ev1 @ rest\<rparr>)"
    and rest: "game_rows rest = []" "broadcasts rest = []" "histories rest = []" "chats rest = []"
    and fields: "Score g' = Score g" "Actions g' = Actions g"
  proof (cases "Games w databaseID \<noteq> None")
    case True
    then have "End_share env self databaseID n g w =
       (g, w\<lparr>Games := Games w, Trace := Trace w @ ?ev1 @
          [LogError [''Failed to turn the game into a shared replay since there already exists a game with an ID of '' @
                          Itoa databaseID @ ''.'']]\<rparr>)"
      by (simp add: End_share_def Let_def)
    then show thesis by (rule that) simp_all
  next
    case False
    show thesis
    proof (cases "map_len sp = 0")
      case True
      with False have "End_share env self databaseID n g w =
         (g\<lparr>ID := databaseID, SharedReplay := True,
            Name := ''Shared replay for game #'' @ Itoa databaseID, Spectators := sp, Players := []\<rparr>,
          w\<lparr>Games := ((Games w)(ID g := None))(databaseID := None),
            Trace := Trace w @ ?ev1 @ ev2\<rparr>)"
        by (simp add: End_share_def Let_def pts)
      then show thesis by (rule that) (use q2 in simp_all)
    next
      case nonempty: False
      let ?g' = "g\<lparr>ID := databaseID, SharedReplay := True,
            Name := ''Shared replay for game #'' @ Itoa databaseID, Spectators := sp, Players := []\<rparr>"
      let ?notes = "map (\<lambda>p. \<lparr>ID_n = ID_p (Heap w p), Name_n = Name_p (Heap w p),
                               Notes_n = Notes (Heap w p)\<rparr>) (Players g)"
      let ?rest = "ev2 @ replay_spectators self ?g' ?notes @ [NotifyAllTable self] @
          NotifyPlayerChange (Heap w) ?g' @ NotifySpectators self (Heap w) ?g'"
      from False nonempty have "End_share env self databaseID n g w =
         (?g', w\<lparr>Games := ((Games w)(ID g := None))(databaseID \<mapsto> self),
            Trace := Trace w @ ?ev1 @ ?rest\<rparr>)"
        by (simp add: End_share_def Let_def pts)
      then show thesis
        by (rule that)
          (use q2 in \<open>simp_all add: quiet_replay_spectators quiet_NotifyPlayerChange
              quiet_NotifySpectators\<close>)
    qed
  qed
  from eq show thesis
    by (rule that) (use rest fields h1 in simp_all)
qed

lemma End_eq:
  obtains g' games' ev extra where
    "End env self (g, w) = Some (g', w\<lparr>Games := games', Trace := Trace w @ ev\<rparr>)"
    "Actions g' = Actions g @ extra @ [gameOver g]"
    "Score g' = (if 1 <s EndCondition g then 0 else Score g)"
    "broadcasts ev = map (\<lambda>s. (s, gameOver g)) (audience (Heap w) g)"
    "\<exists>row. game_rows ev = [row] \<and> Score_r row = Score g'"
    "\<forall>h \<in> set (histories ev). Score_h h = Score g'"
    "\<forall>d \<in> set (chats ev).
       \<exists>a b. Msg_d d = a @ ''game with a score of '' @ Itoa (Score g') @ ''. '' @ b"
proof -
  obtain extra ev1 where
    fin: "End_finish env self (Heap w) g =
       Some (g\<lparr>DatetimeFinished := now env, Actions := Actions g @ extra @ [gameOver g],
               Score := (if 1 <s EndCondition g then 0 else Score g)\<rparr>, ev1)"
    and q1: "game_rows ev1 = []" "histories ev1 = []" "chats ev1 = []"
      "broadcasts ev1 = map (\<lambda>s. (s, gameOver g)) (audience (Heap w) g)"
    by (rule End_finish_eq)
  let ?g1 = "g\<lparr>DatetimeFinished := now env, Actions := Actions g @ extra @ [gameOver g],
               Score := (if 1 <s EndCondition g then 0 else Score g)\<rparr>"
  obtain ev2 r where rec: "End_record env (Heap w) ?g1 = (ev2, r)"
    by (cases "End_record env (Heap w) ?g1")
  note q2 = End_record_rows [OF rec]
  have row: "Score_r (game_row env ?g1) = Score ?g1"
    by (simp add: game_row_def)
  show thesis
  proof (cases r)
    case None
    have "End env self (g, w) = Some (?g1, w\<lparr>Games := Games w, Trace := Trace w @ ev1 @ ev2\<rparr>)"
      by (simp add: End_def fin rec None)
    then show thesis
      by (rule that [where extra = extra]) (use q1 q2 row in simp_all)
  next
    case (Some idn)
    obtain databaseID n where idn: "idn = (databaseID, n)" by (cases idn)
    let ?w1 = "w\<lparr>Trace := Trace w @ ev1 @ ev2\<rparr>"
    obtain g' games' ev3 where
      sh: "End_share env self databaseID n ?g1 ?w1 =
             (g', ?w1\<lparr>Games := games', Trace := Trace ?w1 @ ev3\<rparr>)"
      and q3: "game_rows ev3 = []" "broadcasts ev3 = []"
        "\<forall>h \<in> set (histories ev3). Score_h h = Score ?g1"
        "\<forall>d \<in> set (chats ev3).
           \<exists>a b. Msg_d d = a @ ''game with a score of '' @ Itoa (Score ?g1) @ ''. '' @ b"
        "Score g' = Score ?g1" "Actions g' = Actions ?g1"
      by (rule End_share_eq)
    have "End env self (g, w) =
        Some (g', w\<lparr>Games := games', Trace := Trace w @ (ev1 @ ev2 @ ev3)\<rparr>)"
      by (simp add: End_def fin rec Some idn sh)
    then show thesis
      by (rule that [where extra = extra]) (use q1 q2 q3 row in simp_all)
  qed
qed

lemmas End_unfold = End_def End_finish_def End_record_def End_share_def finishing_times_def
  NotifyAction_def NotifyTime_def reveal_hands_def game_row_def game_history_def
  announceGameResult_def otherPlayerNames_def replay_spectators_def NotifyPlayerChange_def
  NotifySpectators_def GetName_def Itoa_def digits10.simps MaxScore_def TrimSuffix_def
  map_len_def word_sless_alt Let_def End_game_def End_world_def End_events_def

lemmas sample_unfold = Env0_def Env1_def Game0_def Game1_def World0_def World1_def Heap0_def
  Player0_def Action0_def CommandData0_def Card0_def

lemma End_results:
  obtains g' games' ev extra where
    "End env self (g, w) \<noteq> None"
    "End_game env self (g, w) = g'"
    "End_world env self (g, w) = w\<lparr>Games := games', Trace := Trace w @ ev\<rparr>"
    "End_events env self (g, w) = ev"
    "Actions g' = Actions g @ extra @ [gameOver g]"
    "Score g' = (if 1 <s EndCondition g then 0 else Score g)"
    "broadcasts ev = map (\<lambda>s. (s, gameOver g)) (audience (Heap w) g)"
    "\<exists>row. game_rows ev = [row] \<and> Score_r row = Score g'"
    "\<forall>h \<in> set (histories ev). Score_h h = Score g'"
    "\<forall>d \<in> set (chats ev).
       \<exists>a b. Msg_d d = a @ ''game with a score of '' @ Itoa (Score g') @ ''. '' @ b"
proof -
  obtain g' games' ev extra where
    eq: "End env self (g, w) = Some (g', w\<lparr>Games := games', Trace := Trace w @ ev\<rparr>)"
    and rest: "Actions g' = Actions g @ extra @ [gameOver g]"
    "Score g' = (if 1 <s EndCondition g then 0 else Score g)"
    "broadcasts ev = map (\<lambda>s. (s, gameOver g)) (audience (Heap w) g)"
    "\<exists>row. game_rows ev = [row] \<and> Score_r row = Score g'"
    "\<forall>h \<in> set (histories ev). Score_h h = Score g'"
    "\<forall>d \<in> set (chats ev).
       \<exists>a b. Msg_d d = a @ ''game with a score of '' @ Itoa (Score g') @ ''. '' @ b"
    by (rule End_eq)
  show thesis
    by (rule that [OF _ _ _ _ rest]) (simp_all add: eq End_game_def End_world_def End_events_def)
qed

lemma End_order:
  "\<exists>shown kept. End_events env self (g, w) = shown @ kept \<and> broadcasts kept = [] \<and>
     game_rows shown = [] \<and> histories shown = [] \<and> chats shown = []"
proof -
  obtain extra ev1 where
    fin: "End_finish env self (Heap w) g =
       Some (g\<lparr>DatetimeFinished := now env, Actions := Actions g @ extra @ [gameOver g],
               Score := (if 1 <s EndCondition g then 0 else Score g)\<rparr>, ev1)"
    and q1: "game_rows ev1 = []" "histories ev1 = []" "chats ev1 = []"
    by (rule End_finish_eq)
  let ?g1 = "g\<lparr>DatetimeFinished := now env, Actions := Actions g @ extra @ [gameOver g],
               Score := (if 1 <s EndCondition g then 0 else Score g)\<rparr>"
  obtain ev2 r where rec: "End_record env (Heap w) ?g1 = (ev2, r)"
    by (cases "End_record env (Heap w) ?g1")
  note q2 = End_record_rows [OF rec]
  have "\<exists>kept. End_events env self (g, w) = ev1 @ kept \<and> broadcasts kept = []"
  proof (cases r)
    case None
    have "End_events env self (g, w) = ev1 @ ev2"
      by (simp add: End_events_def End_world_def End_def fin rec None)
    with q2 show ?thesis by blast
  next
    case (Some idn)
    obtain databaseID n where idn: "idn = (databaseID, n)" by (cases idn)
    let ?w1 = "w\<lparr>Trace := Trace w @ ev1 @ ev2\<rparr>"
    obtain g' games' ev3 where
      sh: "End_share env self databaseID n ?g1 ?w1 =
             (g', ?w1\<lparr>Games := games', Trace := Trace ?w1 @ ev3\<rparr>)"
      and q3: "broadcasts ev3 = []"
      by (rule End_share_eq)
    have "End_events env self (g, w) = ev1 @ (ev2 @ ev3)"
      by (simp add: End_events_def End_world_def End_def fin rec Some idn sh)
    moreover have "broadcasts (ev2 @ ev3) = []"
      using q2 q3 by simp
    ultimately show ?thesis by blast
  qed
  with q1 show ?thesis by blast
qed

lemma sle_sless_one: "1 \<le>s (e :: go_int) \<Longrightarrow> (\<not> 1 <s e) = (e = 1)"
proof -
  assume le: "1 \<le>s e"
  have "(sint e = 1) = (e = 1)"
    using word_eq_iff_signed [where 'a = int, of e 1] by simp
  with le show ?thesis
    by (auto simp: word_sle_eq word_sless_alt)
qed

section \<open>End: the score that is shown and the score that is kept\<close>

text \<open>
  C2. \<open>End\<close> always returns. The last action of the log it leaves is the \<open>gameOver\<close>
  action, which carries the score the game had when \<open>End\<close> was called and a loss flag that
  is true exactly when \<open>EndCondition\<close> is greater than 1; for an ended game (\<open>EndCondition\<close>
  at least 1) the flag is false exactly when \<open>EndCondition\<close> is 1. That action is what
  \<open>NotifyAction\<close> sends to every player and spectator, and every such message comes
  before the game row, the history messages and the announcement. When \<open>EndCondition\<close> is greater
  than 1, the score of the game afterwards is 0, the one game row handed to the database has
  score 0, every history entry sent has score 0, and every lobby announcement reads
  "game with a score of 0. ".
\<close>

theorem End_score_asymmetry:
  "End env self (g, w) \<noteq> None \<and>
   Type_a (last (Actions (End_game env self (g, w)))) = ''gameOver'' \<and>
   Score_a (last (Actions (End_game env self (g, w)))) = Score g \<and>
   Loss_a (last (Actions (End_game env self (g, w)))) = (1 <s EndCondition g) \<and>
   (1 \<le>s EndCondition g \<longrightarrow>
      (Loss_a (last (Actions (End_game env self (g, w)))) = False) = (EndCondition g = 1)) \<and>
   broadcasts (End_events env self (g, w)) =
     map (\<lambda>s. (s, last (Actions (End_game env self (g, w))))) (audience (Heap w) g) \<and>
   (\<exists>shown kept. End_events env self (g, w) = shown @ kept \<and> broadcasts kept = [] \<and>
      game_rows shown = [] \<and> histories shown = [] \<and> chats shown = []) \<and>
   (1 <s EndCondition g \<longrightarrow>
      Score (End_game env self (g, w)) = 0 \<and>
      (\<exists>row. game_rows (End_events env self (g, w)) = [row] \<and> Score_r row = 0) \<and>
      (\<forall>h \<in> set (histories (End_events env self (g, w))). Score_h h = 0) \<and>
      (\<forall>d \<in> set (chats (End_events env self (g, w))).
         \<exists>a b. Msg_d d = a @ ''game with a score of 0. '' @ b))"
proof -
  obtain g' games' ev extra where
    r: "End env self (g, w) \<noteq> None"
    "End_game env self (g, w) = g'"
    "End_events env self (g, w) = ev"
    "Actions g' = Actions g @ extra @ [gameOver g]"
    "Score g' = (if 1 <s EndCondition g then 0 else Score g)"
    "broadcasts ev = map (\<lambda>s. (s, gameOver g)) (audience (Heap w) g)"
    "\<exists>row. game_rows ev = [row] \<and> Score_r row = Score g'"
    "\<forall>h \<in> set (histories ev). Score_h h = Score g'"
    "\<forall>d \<in> set (chats ev).
       \<exists>a b. Msg_d d = a @ ''game with a score of '' @ Itoa (Score g') @ ''. '' @ b"
    by (rule End_results)
  have l: "last (Actions g') = gameOver g"
    using r(4) by simp
  have par: "1 \<le>s EndCondition g \<longrightarrow> ((1 <s EndCondition g) = False) = (EndCondition g = 1)"
    using sle_sless_one [of "EndCondition g"] by auto
  note order = End_order [of env self g w, unfolded r(3)]
  show ?thesis
  proof (cases "1 <s EndCondition g")
    case True
    with r(5) have z: "Score g' = 0" by simp
    show ?thesis
      using r(1) r(6-9) True par order by (simp add: r(2,3) l z Itoa_0)
  next
    case False
    then show ?thesis
      using r(1) r(6) par order by (simp add: r(2,3) l)
  qed
qed

text \<open>The lost game \<open>Game1\<close>, with true score 7, in a run where every call succeeds.\<close>

theorem End_score_asymmetry_witness:
  "1 <s EndCondition Game1 \<and> Score Game1 = 7 \<and>
   Score_a (last (Actions (End_game Env0 1 (Game1, World1)))) = 7 \<and>
   Loss_a (last (Actions (End_game Env0 1 (Game1, World1)))) \<and>
   map fst (broadcasts (End_events Env0 1 (Game1, World1))) = [10] \<and>
   Score (End_game Env0 1 (Game1, World1)) = 0 \<and>
   map Score_r (game_rows (End_events Env0 1 (Game1, World1))) = [0] \<and>
   map Score_h (histories (End_events Env0 1 (Game1, World1))) = [0] \<and>
   length (chats (End_events Env0 1 (Game1, World1))) = 1"
proof -
  have loss: "1 <s EndCondition Game1" and score: "Score Game1 = 7"
    by (simp_all add: sample_unfold word_sless_alt)
  have aud: "audience (Heap World1) Game1 = [10]"
    by (simp add: audience_def sample_unfold)
  have h: "length (histories (End_events Env0 1 (Game1, World1))) = 1"
    and c: "length (chats (End_events Env0 1 (Game1, World1))) = 1"
    by (simp_all add: End_unfold sample_unfold)
  from h obtain x where x: "histories (End_events Env0 1 (Game1, World1)) = [x]"
    by (cases "histories (End_events Env0 1 (Game1, World1))") auto
  show ?thesis
    using End_score_asymmetry [of Env0 1 Game1 World1] loss score aud c x
    by (auto simp: comp_def)
qed

section \<open>End: a second call\<close>




section \<open>End: players into spectators\<close>

lemma keys_map_set: "fst ` set (map_set m k v) = insert k (fst ` set m)"
  by (induction m) force+

lemma map_len_card: "map_len m = card (fst ` set m)"
  by (simp add: map_len_def length_remdups_card_conv)

lemma keys_players_to_spectators:
  "players_to_spectators env heap ps sp = (sp', ev) \<Longrightarrow>
     fst ` set sp' = fst ` set sp \<union> user_id env heap ` {p \<in> set ps. Present (heap p)}"
proof (induction ps arbitrary: sp sp' ev)
  case Nil
  then show ?case by simp
next
  case (Cons p ps)
  let ?sp1 = "if \<not> Present (heap p) then sp
              else map_set sp (UserID env (Session (heap p))) (Session (heap p))"
  obtain sp2 ev2 where rec: "players_to_spectators env heap ps ?sp1 = (sp2, ev2)"
    by (cases "players_to_spectators env heap ps ?sp1")
  from Cons.prems have sp': "sp' = sp2"
    by (simp add: Let_def rec)
  from Cons.IH [OF rec] show ?case
    unfolding sp' by (auto simp: keys_map_set user_id_def)
qed

lemma End_share_fields:
  assumes "players_to_spectators env (Heap w) (Players g) (Spectators g) = (sp, ev2)"
  shows "fst (End_share env self databaseID n g w) =
           (if Games w databaseID \<noteq> None then g
            else g\<lparr>ID := databaseID, SharedReplay := True,
                   Name := ''Shared replay for game #'' @ Itoa databaseID,
                   Spectators := sp, Players := []\<rparr>)"
    and "Games (snd (End_share env self databaseID n g w)) =
           (if Games w databaseID \<noteq> None then Games w
            else if map_len sp = 0 then ((Games w)(ID g := None))(databaseID := None)
            else ((Games w)(ID g := None))(databaseID \<mapsto> self))"
  using assms by (simp_all add: End_share_def Let_def)

lemma End_converted:
  assumes "\<not> SharedReplay g" and "SharedReplay (End_game env self (g, w))"
  obtains databaseID sp ev where
    "players_to_spectators env (Heap w) (Players g) (Spectators g) = (sp, ev)"
    "Spectators (End_game env self (g, w)) = sp"
    "Players (End_game env self (g, w)) = []"
    "ID (End_game env self (g, w)) = databaseID"
    "Games (End_world env self (g, w)) =
       (if map_len sp = 0 then ((Games w)(ID g := None))(databaseID := None)
        else ((Games w)(ID g := None))(databaseID \<mapsto> self))"
proof -
  obtain extra ev1 where
    fin: "End_finish env self (Heap w) g =
       Some (g\<lparr>DatetimeFinished := now env, Actions := Actions g @ extra @ [gameOver g],
               Score := (if 1 <s EndCondition g then 0 else Score g)\<rparr>, ev1)"
    by (rule End_finish_eq)
  let ?g1 = "g\<lparr>DatetimeFinished := now env, Actions := Actions g @ extra @ [gameOver g],
               Score := (if 1 <s EndCondition g then 0 else Score g)\<rparr>"
  obtain ev2 r where rec: "End_record env (Heap w) ?g1 = (ev2, r)"
    by (cases "End_record env (Heap w) ?g1")
  obtain sp ev where pts: "players_to_spectators env (Heap w) (Players g) (Spectators g) = (sp, ev)"
    by (cases "players_to_spectators env (Heap w) (Players g) (Spectators g)")
  show thesis
  proof (cases r)
    case None
    have "End_game env self (g, w) = ?g1"
      by (simp add: End_game_def End_def fin rec None)
    with assms show thesis by simp
  next
    case (Some idn)
    obtain databaseID n where idn: "idn = (databaseID, n)" by (cases idn)
    let ?w1 = "w\<lparr>Trace := Trace w @ ev1 @ ev2\<rparr>"
    have e: "End env self (g, w) = Some (End_share env self databaseID n ?g1 ?w1)"
      by (simp add: End_def fin rec Some idn)
    have pts1: "players_to_spectators env (Heap ?w1) (Players ?g1) (Spectators ?g1) = (sp, ev)"
      using pts by simp
    note f = End_share_fields [OF pts1, of self databaseID n]
    have free: "Games w databaseID = None"
    proof (rule ccontr)
      assume "Games w databaseID \<noteq> None"
      then have "End_game env self (g, w) = ?g1"
        using f(1) by (simp add: End_game_def e)
      with assms show False by simp
    qed
    show thesis
    proof (rule that [OF pts, of databaseID])
      show "Spectators (End_game env self (g, w)) = sp"
        "Players (End_game env self (g, w)) = []"
        "ID (End_game env self (g, w)) = databaseID"
        using f(1) free by (simp_all add: End_game_def e)
      show "Games (End_world env self (g, w)) =
         (if map_len sp = 0 then ((Games w)(ID g := None))(databaseID := None)
          else ((Games w)(ID g := None))(databaseID \<mapsto> self))"
        using f(2) free by (simp add: End_world_def e)
    qed
  qed
qed

text \<open>
  C6, amended. When \<open>End\<close> completes the conversion (it turns a game that was no shared
  replay into one), the keys of the \<open>Spectators\<close> map are the keys it had before
  together with the user ids of the players whose \<open>Present\<close> flag was set, so the number
  of entries is the number of these keys: the number of previous spectators plus the number
  of present players when the players' user ids are distinct and none of them was a
  spectator already. The player list is empty. If the map is empty the identifier the game
  now carries resolves to nothing in the registry; otherwise it resolves to the game.
\<close>

theorem End_spectators:
  "\<not> SharedReplay g \<and> SharedReplay (End_game env self (g, w)) \<longrightarrow>
   fst ` set (Spectators (End_game env self (g, w))) =
     fst ` set (Spectators g) \<union> user_id env (Heap w) ` set (present_players (Heap w) g) \<and>
   map_len (Spectators (End_game env self (g, w))) =
     card (fst ` set (Spectators g) \<union> user_id env (Heap w) ` set (present_players (Heap w) g)) \<and>
   (distinct (map (user_id env (Heap w)) (present_players (Heap w) g)) \<and>
    fst ` set (Spectators g) \<inter> user_id env (Heap w) ` set (present_players (Heap w) g) = {} \<longrightarrow>
      map_len (Spectators (End_game env self (g, w))) =
        map_len (Spectators g) + length (present_players (Heap w) g)) \<and>
   Players (End_game env self (g, w)) = [] \<and>
   (map_len (Spectators (End_game env self (g, w))) = 0 \<longrightarrow>
      Games (End_world env self (g, w)) (ID (End_game env self (g, w))) = None) \<and>
   (map_len (Spectators (End_game env self (g, w))) \<noteq> 0 \<longrightarrow>
      Games (End_world env self (g, w)) (ID (End_game env self (g, w))) = Some self)"
proof (intro impI, elim conjE)
  assume a: "\<not> SharedReplay g" "SharedReplay (End_game env self (g, w))"
  let ?U = "user_id env (Heap w) ` set (present_players (Heap w) g)"
  obtain databaseID sp ev where
    pts: "players_to_spectators env (Heap w) (Players g) (Spectators g) = (sp, ev)"
    and r: "Spectators (End_game env self (g, w)) = sp"
    "Players (End_game env self (g, w)) = []"
    "ID (End_game env self (g, w)) = databaseID"
    "Games (End_world env self (g, w)) =
       (if map_len sp = 0 then ((Games w)(ID g := None))(databaseID := None)
        else ((Games w)(ID g := None))(databaseID \<mapsto> self))"
    by (rule End_converted [OF a])
  have keys: "fst ` set sp = fst ` set (Spectators g) \<union> ?U"
    using keys_players_to_spectators [OF pts] by (simp add: present_players_def)
  have len: "map_len sp = card (fst ` set (Spectators g) \<union> ?U)"
    by (simp add: map_len_card keys)
  have count: "map_len sp = map_len (Spectators g) + length (present_players (Heap w) g)"
    if d: "distinct (map (user_id env (Heap w)) (present_players (Heap w) g))"
      and i: "fst ` set (Spectators g) \<inter> ?U = {}"
  proof -
    have "card ?U = length (present_players (Heap w) g)"
      using distinct_card [OF d] by simp
    moreover have "card (fst ` set (Spectators g) \<union> ?U) = card (fst ` set (Spectators g)) + card ?U"
      using i by (intro card_Un_disjoint) simp_all
    ultimately show ?thesis by (simp add: map_len_card keys)
  qed
  show "fst ` set (Spectators (End_game env self (g, w))) = fst ` set (Spectators g) \<union> ?U \<and>
   map_len (Spectators (End_game env self (g, w))) = card (fst ` set (Spectators g) \<union> ?U) \<and>
   (distinct (map (user_id env (Heap w)) (present_players (Heap w) g)) \<and>
    fst ` set (Spectators g) \<inter> ?U = {} \<longrightarrow>
      map_len (Spectators (End_game env self (g, w))) =
        map_len (Spectators g) + length (present_players (Heap w) g)) \<and>
   Players (End_game env self (g, w)) = [] \<and>
   (map_len (Spectators (End_game env self (g, w))) = 0 \<longrightarrow>
      Games (End_world env self (g, w)) (ID (End_game env self (g, w))) = None) \<and>
   (map_len (Spectators (End_game env self (g, w))) \<noteq> 0 \<longrightarrow>
      Games (End_world env self (g, w)) (ID (End_game env self (g, w))) = Some self)"
    using keys len count by (simp add: r)
qed

text \<open>
  C6, as stated: the number of entries of \<open>Spectators\<close> equals the number of players who
  were present. \<open>Game2\<close> has one present player and one spectator from before: two
  entries afterwards.
\<close>

theorem End_spectators_counterexample:
  "\<not> SharedReplay Game2 \<and> SharedReplay (End_game Env0 1 (Game2, World1)) \<and>
   length (present_players (Heap World1) Game2) = 1 \<and>
   map_len (Spectators (End_game Env0 1 (Game2, World1))) = 2"
  by (simp add: End_unfold sample_unfold Game2_def present_players_def)

theorem End_spectators_witness:
  "\<not> SharedReplay Game2 \<and> SharedReplay (End_game Env0 1 (Game2, World1)) \<and>
   map_len (Spectators Game2) = 1 \<and> present_players (Heap World1) Game2 = [0] \<and>
   user_id Env0 (Heap World1) 0 = 10 \<and>
   map_len (Spectators (End_game Env0 1 (Game2, World1))) = 2 \<and>
   Players (End_game Env0 1 (Game2, World1)) = [] \<and>
   Games (End_world Env0 1 (Game2, World1)) (ID (End_game Env0 1 (Game2, World1))) = Some 1"
proof -
  have h: "\<not> SharedReplay Game2" "SharedReplay (End_game Env0 1 (Game2, World1))"
    by (simp_all add: End_unfold sample_unfold Game2_def)
  have s: "map_len (Spectators Game2) = 1" "present_players (Heap World1) Game2 = [0]"
    "user_id Env0 (Heap World1) 0 = 10" "fst ` set (Spectators Game2) = {3}"
    by (simp_all add: sample_unfold Game2_def map_len_def present_players_def user_id_def)
  show ?thesis
    using End_spectators [of Game2 Env0 1 World1] h s by simp
qed

section \<open>End: a database call fails\<close>

lemma insert_participants_ok:
  "(\<forall>k < length ps. db_GameParticipants_Insert env (i + k) (ID_p (heap (ps ! k))) databaseID
        (Notes (heap (ps ! k))) = None) \<Longrightarrow>
   insert_participants env heap databaseID i ps =
     (map (\<lambda>p. DbGameParticipantsInsert (ID_p (heap p)) databaseID (Notes (heap p))) ps, True)"
proof (induction ps arbitrary: i)
  case Nil
  show ?case by simp
next
  case (Cons p ps)
  from Cons.prems [rule_format, of 0] have first:
    "db_GameParticipants_Insert env i (ID_p (heap p)) databaseID (Notes (heap p)) = None"
    by simp
  have "\<forall>k < length ps. db_GameParticipants_Insert env (Suc i + k) (ID_p (heap (ps ! k)))
      databaseID (Notes (heap (ps ! k))) = None"
    using Cons.prems [rule_format, of "Suc k" for k] by simp
  from Cons.IH [OF this] show ?case
    by (simp add: first)
qed

lemma insert_participants_fail:
  "n < length ps \<Longrightarrow>
   (\<forall>k < n. db_GameParticipants_Insert env (i + k) (ID_p (heap (ps ! k))) databaseID
        (Notes (heap (ps ! k))) = None) \<Longrightarrow>
   db_GameParticipants_Insert env (i + n) (ID_p (heap (ps ! n))) databaseID
        (Notes (heap (ps ! n))) = Some err \<Longrightarrow>
   insert_participants env heap databaseID i ps =
     (map (\<lambda>p. DbGameParticipantsInsert (ID_p (heap p)) databaseID (Notes (heap p))) (take n ps) @
      [DbGameParticipantsInsert (ID_p (heap (ps ! n))) databaseID (Notes (heap (ps ! n))),
       LogError [''Failed to insert the game participant row:'', err]], False)"
proof (induction ps arbitrary: i n)
  case Nil
  then show ?case by simp
next
  case (Cons p ps)
  show ?case
  proof (cases n)
    case 0
    with Cons.prems show ?thesis by simp
  next
    case (Suc m)
    from Cons.prems(2) [rule_format, of 0] Suc have first:
      "db_GameParticipants_Insert env i (ID_p (heap p)) databaseID (Notes (heap p)) = None"
      by simp
    have m: "m < length ps" using Cons.prems(1) Suc by simp
    have before: "\<forall>k < m. db_GameParticipants_Insert env (Suc i + k) (ID_p (heap (ps ! k)))
        databaseID (Notes (heap (ps ! k))) = None"
      using Cons.prems(2) [rule_format, of "Suc k" for k] Suc by simp
    have at: "db_GameParticipants_Insert env (Suc i + m) (ID_p (heap (ps ! m))) databaseID
        (Notes (heap (ps ! m))) = Some err"
      using Cons.prems(3) Suc by simp
    from Cons.IH [OF m before at] show ?thesis
      by (simp add: first Suc)
  qed
qed

lemma insert_actions_ok:
  "(\<forall>k < length as. \<exists>s. Marshal env (as ! k) = Inr s \<and>
        db_GameActions_Insert env (j + k) databaseID s = None) \<Longrightarrow>
   insert_actions env databaseID j as =
     (map (\<lambda>a. DbGameActionsInsert databaseID (projr (Marshal env a))) as, True)"
proof (induction as arbitrary: j)
  case Nil
  show ?case by simp
next
  case (Cons a as)
  from Cons.prems [rule_format, of 0] obtain s where first:
    "Marshal env a = Inr s" "db_GameActions_Insert env j databaseID s = None"
    by auto
  have "\<forall>k < length as. \<exists>s. Marshal env (as ! k) = Inr s \<and>
        db_GameActions_Insert env (Suc j + k) databaseID s = None"
    using Cons.prems [rule_format, of "Suc k" for k] by simp
  from Cons.IH [OF this] show ?case
    by (simp add: first)
qed

lemma insert_actions_fail:
  "n < length as \<Longrightarrow>
   (\<forall>k < n. \<exists>s. Marshal env (as ! k) = Inr s \<and>
        db_GameActions_Insert env (j + k) databaseID s = None) \<Longrightarrow>
   Marshal env (as ! n) = Inr t \<Longrightarrow>
   db_GameActions_Insert env (j + n) databaseID t = Some err \<Longrightarrow>
   insert_actions env databaseID j as =
     (map (\<lambda>a. DbGameActionsInsert databaseID (projr (Marshal env a))) (take n as) @
      [DbGameActionsInsert databaseID t, LogError [''Failed to insert the action row:'', err]],
      False)"
proof (induction as arbitrary: j n)
  case Nil
  then show ?case by simp
next
  case (Cons a as)
  show ?case
  proof (cases n)
    case 0
    with Cons.prems show ?thesis by simp
  next
    case (Suc m)
    from Cons.prems(2) [rule_format, of 0] Suc obtain s where first:
      "Marshal env a = Inr s" "db_GameActions_Insert env j databaseID s = None"
      by auto
    have m: "m < length as" using Cons.prems(1) Suc by simp
    have before: "\<forall>k < m. \<exists>s. Marshal env (as ! k) = Inr s \<and>
        db_GameActions_Insert env (Suc j + k) databaseID s = None"
      using Cons.prems(2) [rule_format, of "Suc k" for k] Suc by simp
    have at: "Marshal env (as ! m) = Inr t"
      "db_GameActions_Insert env (Suc j + m) databaseID t = Some err"
      using Cons.prems(3,4) Suc by simp_all
    from Cons.IH [OF m before at] show ?thesis
      by (simp add: first Suc)
  qed
qed


lemma action_ok_iff:
  "action_ok env databaseID as k \<longleftrightarrow>
     (\<exists>s. Marshal env (as ! k) = Inr s \<and> db_GameActions_Insert env k databaseID s = None)"
  by (simp add: action_ok_def split: sum.splits)

lemma action_refused_iff:
  "action_refused env databaseID as k \<longleftrightarrow>
     (\<exists>s err. Marshal env (as ! k) = Inr s \<and> db_GameActions_Insert env k databaseID s = Some err)"
  by (auto simp: action_refused_def split: sum.splits)

lemma End_record_fail:
  assumes "call_fails env heap g c"
  shows "\<exists>before msg. End_record env heap g = (before @ [call_event env heap g c, LogError msg], None)"
proof (cases "db_Games_Insert env (game_row env g)")
  case (Inl err)
  with assms have c: "c = GameInsert"
    by (simp add: call_fails_def)
  have "End_record env heap g =
      ([] @ [call_event env heap g c, LogError [''Failed to insert the game row:'', err]], None)"
    by (simp add: End_record_def Inl c call_event_def)
  then show ?thesis by blast
next
  case (Inr databaseID)
  let ?row = "DbGamesInsert (game_row env g)"
  let ?part = "\<lambda>p. DbGameParticipantsInsert (ID_p (heap p)) databaseID (Notes (heap p))"
  let ?act = "\<lambda>a. DbGameActionsInsert databaseID (projr (Marshal env a))"
  show ?thesis
  proof (cases c)
    case GameInsert
    with assms Inr show ?thesis by (simp add: call_fails_def)
  next
    case (ParticipantInsert i)
    with assms Inr have i: "i < length (Players g)"
      and before: "\<forall>k < i. participant_ok env heap databaseID (Players g) k"
      and at: "\<not> participant_ok env heap databaseID (Players g) i"
      by (simp_all add: call_fails_def)
    from at obtain err where err:
      "db_GameParticipants_Insert env (0 + i) (ID_p (heap (Players g ! i))) databaseID
         (Notes (heap (Players g ! i))) = Some err"
      by (auto simp: participant_ok_def)
    have before': "\<forall>k < i. db_GameParticipants_Insert env (0 + k) (ID_p (heap (Players g ! k)))
        databaseID (Notes (heap (Players g ! k))) = None"
      using before by (simp add: participant_ok_def)
    note loop = insert_participants_fail [OF i before' err]
    have "End_record env heap g =
      ((?row # map ?part (take i (Players g))) @
       [call_event env heap g c, LogError [''Failed to insert the game participant row:'', err]],
       None)"
      by (simp add: End_record_def Inr loop call_event_def ParticipantInsert)
    then show ?thesis by blast
  next
    case (ActionInsert j)
    with assms Inr have parts: "\<forall>k < length (Players g). participant_ok env heap databaseID (Players g) k"
      and j: "j < length (Actions g)"
      and before: "\<forall>k < j. action_ok env databaseID (Actions g) k"
      and at: "action_refused env databaseID (Actions g) j"
      by (simp_all add: call_fails_def)
    have parts': "\<forall>k < length (Players g). db_GameParticipants_Insert env (0 + k)
        (ID_p (heap (Players g ! k))) databaseID (Notes (heap (Players g ! k))) = None"
      using parts by (simp add: participant_ok_def)
    note loop1 = insert_participants_ok [OF parts']
    from at obtain t err where t: "Marshal env (Actions g ! j) = Inr t"
      and err: "db_GameActions_Insert env (0 + j) databaseID t = Some err"
      by (auto simp: action_refused_iff)
    have before': "\<forall>k < j. \<exists>s. Marshal env (Actions g ! k) = Inr s \<and>
        db_GameActions_Insert env (0 + k) databaseID s = None"
      using before by (simp add: action_ok_iff)
    note loop2 = insert_actions_fail [OF j before' t err]
    have "End_record env heap g =
      ((?row # map ?part (Players g) @ map ?act (take j (Actions g))) @
       [call_event env heap g c, LogError [''Failed to insert the action row:'', err]], None)"
      by (simp add: End_record_def Inr loop1 loop2 call_event_def ActionInsert t)
    then show ?thesis by blast
  next
    case NumSimilar
    with assms Inr have parts: "\<forall>k < length (Players g). participant_ok env heap databaseID (Players g) k"
      and acts: "\<forall>k < length (Actions g). action_ok env databaseID (Actions g) k"
      and at: "isl (db_Games_GetNumSimilar env (Seed g))"
      by (simp_all add: call_fails_def)
    have parts': "\<forall>k < length (Players g). db_GameParticipants_Insert env (0 + k)
        (ID_p (heap (Players g ! k))) databaseID (Notes (heap (Players g ! k))) = None"
      using parts by (simp add: participant_ok_def)
    note loop1 = insert_participants_ok [OF parts']
    have acts': "\<forall>k < length (Actions g). \<exists>s. Marshal env (Actions g ! k) = Inr s \<and>
        db_GameActions_Insert env (0 + k) databaseID s = None"
      using acts by (simp add: action_ok_iff)
    note loop2 = insert_actions_ok [OF acts']
    from at obtain err where err: "db_Games_GetNumSimilar env (Seed g) = Inl err"
      by (cases "db_Games_GetNumSimilar env (Seed g)") simp_all
    have "End_record env heap g =
      ((?row # map ?part (Players g) @ map ?act (Actions g)) @
       [call_event env heap g c,
        LogError [''Failed to get the number of games on seed '' @ Seed g @ '':'', err]], None)"
      by (simp add: End_record_def Inr loop1 loop2 call_event_def NumSimilar err)
    then show ?thesis by blast
  qed
qed

text \<open>
  C7. Whichever persistence call of \<open>End\<close> returns a failure (the game row, the row of
  a participant, the row of an action, the count of games on the seed), \<open>End\<close> returns
  with the failing call as its last call but one and the error log as its last: nothing is
  inserted after it. No history message and no lobby announcement is sent, the registry is
  as it was, and the game keeps its identifier, its \<open>SharedReplay\<close> flag, its players
  and its spectators.
\<close>

theorem End_persistence_failure:
  "call_fails env (Heap w) (End_finished env self (Heap w) g) c \<Longrightarrow>
   End env self (g, w) \<noteq> None \<and>
   (\<exists>before msg. End_events env self (g, w) =
      before @ [call_event env (Heap w) (End_finished env self (Heap w) g) c, LogError msg]) \<and>
   histories (End_events env self (g, w)) = [] \<and>
   chats (End_events env self (g, w)) = [] \<and>
   Games (End_world env self (g, w)) = Games w \<and>
   SharedReplay (End_game env self (g, w)) = SharedReplay g \<and>
   ID (End_game env self (g, w)) = ID g \<and>
   Players (End_game env self (g, w)) = Players g \<and>
   Spectators (End_game env self (g, w)) = Spectators g"
proof -
  assume fails: "call_fails env (Heap w) (End_finished env self (Heap w) g) c"
  obtain extra ev1 where
    fin: "End_finish env self (Heap w) g =
       Some (g\<lparr>DatetimeFinished := now env, Actions := Actions g @ extra @ [gameOver g],
               Score := (if 1 <s EndCondition g then 0 else Score g)\<rparr>, ev1)"
    and q1: "histories ev1 = []" "chats ev1 = []"
    by (rule End_finish_eq)
  let ?g1 = "g\<lparr>DatetimeFinished := now env, Actions := Actions g @ extra @ [gameOver g],
               Score := (if 1 <s EndCondition g then 0 else Score g)\<rparr>"
  have g1: "End_finished env self (Heap w) g = ?g1"
    by (simp add: End_finished_def fin)
  from End_record_fail [OF fails] obtain before msg where
    rec: "End_record env (Heap w) ?g1 = (before @ [call_event env (Heap w) ?g1 c, LogError msg], None)"
    by (auto simp: g1)
  note q2 = End_record_rows [OF rec]
  let ?ev2 = "before @ [call_event env (Heap w) ?g1 c, LogError msg]"
  have e: "End env self (g, w) = Some (?g1, w\<lparr>Trace := Trace w @ ev1 @ ?ev2\<rparr>)"
    by (simp add: End_def fin rec)
  have evs: "End_events env self (g, w) = (ev1 @ before) @ [call_event env (Heap w) ?g1 c, LogError msg]"
    by (simp add: End_events_def End_world_def e)
  have shape: "\<exists>before msg. End_events env self (g, w) =
      before @ [call_event env (Heap w) (End_finished env self (Heap w) g) c, LogError msg]"
    unfolding g1 using evs by blast
  have quiet: "histories (End_events env self (g, w)) = []" "chats (End_events env self (g, w)) = []"
    using q1 q2 by (simp_all add: End_events_def End_world_def e)
  show ?thesis
    using shape quiet by (simp add: e End_game_def End_world_def)
qed

lemmas call_unfold = call_fails_def call_event_def participant_ok_def action_ok_def
  action_refused_def End_finished_def EnvG_def EnvP_def EnvA_def EnvN_def less_Suc_eq

text \<open>One failing database for each of the four kinds of call, on \<open>Game1\<close>.\<close>

theorem End_persistence_failure_witness:
  "call_fails EnvG (Heap World1) (End_finished EnvG 1 (Heap World1) Game1) GameInsert \<and>
   Games (End_world EnvG 1 (Game1, World1)) 5 = Some 1 \<and>
   \<not> SharedReplay (End_game EnvG 1 (Game1, World1)) \<and>
   call_fails EnvP (Heap World1) (End_finished EnvP 1 (Heap World1) Game1) (ParticipantInsert 0) \<and>
   Games (End_world EnvP 1 (Game1, World1)) 5 = Some 1 \<and>
   \<not> SharedReplay (End_game EnvP 1 (Game1, World1)) \<and>
   call_fails EnvA (Heap World1) (End_finished EnvA 1 (Heap World1) Game1) (ActionInsert 1) \<and>
   Games (End_world EnvA 1 (Game1, World1)) 5 = Some 1 \<and>
   \<not> SharedReplay (End_game EnvA 1 (Game1, World1)) \<and>
   call_fails EnvN (Heap World1) (End_finished EnvN 1 (Heap World1) Game1) NumSimilar \<and>
   Games (End_world EnvN 1 (Game1, World1)) 5 = Some 1 \<and>
   \<not> SharedReplay (End_game EnvN 1 (Game1, World1))"
proof -
  have hG: "call_fails EnvG (Heap World1) (End_finished EnvG 1 (Heap World1) Game1) GameInsert"
    by (simp add: call_unfold End_unfold sample_unfold)
  have hP: "call_fails EnvP (Heap World1) (End_finished EnvP 1 (Heap World1) Game1) (ParticipantInsert 0)"
    by (simp add: call_unfold End_unfold sample_unfold)
  have hA: "call_fails EnvA (Heap World1) (End_finished EnvA 1 (Heap World1) Game1) (ActionInsert 1)"
    by (simp add: call_unfold End_unfold sample_unfold)
  have hN: "call_fails EnvN (Heap World1) (End_finished EnvN 1 (Heap World1) Game1) NumSimilar"
    by (simp add: call_unfold End_unfold sample_unfold)
  have s: "Games World1 5 = Some 1" "\<not> SharedReplay Game1"
    by (simp_all add: sample_unfold)
  show ?thesis
    using End_persistence_failure [OF hG] End_persistence_failure [OF hP]
      End_persistence_failure [OF hA] End_persistence_failure [OF hN] hG hP hA hN s
    by simp
qed

end
